theory Spec2Isabelle
  imports Main "HOL-Library.Sublist" "HOL-Library.AList"
begin

section \<open>JavaScript values\<close>

text \<open>
  The service-binding component of the Kubernetes tools is TypeScript compiled without
  strict null checks: a value typed \<open>string\<close> may be \<open>undefined\<close> or \<open>null\<close> at run
  time. \<open>jsval\<close> is such a value. Strings are lists of characters.
\<close>

datatype jsval = Undefined | Null | Str string

text \<open>\<open>!x\<close> is \<open>\<not> truthy x\<close>: undefined, null and the empty string are falsy.\<close>

fun truthy :: "jsval \<Rightarrow> bool" where
  "truthy Undefined = False"
| "truthy Null = False"
| "truthy (Str s) = (s \<noteq> [])"

text \<open>The conversion a template literal \<open>`${x}`\<close> and a property key apply.\<close>

fun toString :: "jsval \<Rightarrow> string" where
  "toString Undefined = ''undefined''"
| "toString Null = ''null''"
| "toString (Str s) = s"

text \<open>
  An exception: the \<open>TypeError\<close> the runtime raises on a property read of
  \<open>undefined\<close>/\<open>null\<close> (and \<open>Object.keys(undefined)\<close>), or a failure raised by an
  external collaborator (a rejected promise, a parse error).
\<close>

datatype js_error = TypeError | Rejected string

abbreviation NL :: char where "NL \<equiv> CHR 0x0A"
abbreviation TAB :: char where "TAB \<equiv> CHR 0x09"
abbreviation DQ :: char where "DQ \<equiv> CHR 0x22"

text \<open>\<open>xs[i]\<close> on an array of strings: \<open>undefined\<close> out of range.\<close>

definition at_index :: "string list \<Rightarrow> nat \<Rightarrow> jsval" where
  "at_index xs i = (if i < length xs then Str (xs ! i) else Undefined)"

text \<open>
  \<open>s.split(sep)\<close> for a separator of one character: the pieces between the separators,
  empty pieces included; the empty string splits into one empty piece.
\<close>

fun split_js :: "char \<Rightarrow> string \<Rightarrow> string list" where
  "split_js sep [] = [[]]"
| "split_js sep (c # cs) =
     (if c = sep then [] # split_js sep cs
      else (case split_js sep cs of
              [] \<Rightarrow> [[c]]
            | w # ws \<Rightarrow> (c # w) # ws))"

text \<open>
  \<open>s.indexOf(t)\<close>: the position of the first occurrence of \<open>t\<close> in \<open>s\<close>, \<open>-1\<close> when
  there is none.
\<close>

primrec indexOf :: "string \<Rightarrow> string \<Rightarrow> int" where
  "indexOf [] t = (if t = [] then 0 else - 1)"
| "indexOf (c # cs) t =
     (if prefix t (c # cs) then 0
      else (let i = indexOf cs t in if i < 0 then - 1 else i + 1))"

text \<open>\<open>xs.join(sep)\<close>.\<close>

fun join :: "string \<Rightarrow> string list \<Rightarrow> string" where
  "join sep [] = []"
| "join sep [x] = x"
| "join sep (x # y # ys) = x @ sep @ join sep (y # ys)"

section \<open>Data model (binding.ts, util.ts)\<close>

datatype ServiceType = serviceEnv | serviceCatalogEnv

record Service =
  svc_name :: string
  svc_namespace :: string

text \<open>
  A row of \<open>svcat get instances\<close>. A field is \<open>undefined\<close> when the row has too few
  columns.
\<close>

record ServiceInstance =
  si_name :: jsval
  si_namespace :: jsval
  si_class :: jsval
  si_plan :: jsval
  si_status :: jsval

text \<open>
  The three module-level caches. \<open>ServiceInstanceMap\<close> is an object literal used as a
  dictionary: an association list with one pair per own key. The code reads only the
  number of its keys.
\<close>

record cache =
  ServiceInstanceNames :: "jsval list"
  ServiceInstanceArray :: "ServiceInstance list"
  ServiceInstanceMap :: "(string \<times> ServiceInstance) list"

text \<open>
  \<open>obj[key] = value\<close> on an object created by \<open>{}\<close>, for a value that is an object.
  The key \<open>__proto__\<close> is the accessor inherited from \<open>Object.prototype\<close>: the
  assignment replaces the prototype and the object gets no key of its own. Every other
  key becomes, or stays, an own key.
\<close>

definition assign_key :: "string \<Rightarrow> 'v \<Rightarrow> (string \<times> 'v) list \<Rightarrow> (string \<times> 'v) list" where
  "assign_key key v obj = (if key = ''__proto__'' then obj else AList.update key v obj)"

definition empty_cache :: cache where
  "empty_cache =
     \<lparr>ServiceInstanceNames = [], ServiceInstanceArray = [], ServiceInstanceMap = []\<rparr>"

text \<open>The value written for a binding: \<open>string | string[]\<close>.\<close>

datatype binding_value = Single string | Many "string list"

text \<open>
  An entry of a section of values.yaml: \<open>{name, value}\<close> under \<open>serviceEnv\<close>,
  \<open>{name, vars}\<close> under \<open>serviceCatalogEnv\<close>.
\<close>

datatype binding =
    ServiceBinding (name: string) (val: binding_value)
  | ServiceCatalogBinding (name: string) (vars: binding_value)

text \<open>
  The parsed values.yaml: the two optional sections the component reads and writes
  (\<open>None\<close> when the key is absent or null), and the document's other top-level
  sections, which the component never looks at.
\<close>

record yaml_doc =
  yaml_serviceEnv :: "binding list option"
  yaml_serviceCatalogEnv :: "binding list option"
  yaml_rest :: "(string \<times> string) list"

text \<open>\<open>valuesYaml[serviceType]\<close> and \<open>valuesYaml[serviceType] = v\<close>.\<close>

fun yaml_get :: "ServiceType \<Rightarrow> yaml_doc \<Rightarrow> binding list option" where
  "yaml_get serviceEnv y = yaml_serviceEnv y"
| "yaml_get serviceCatalogEnv y = yaml_serviceCatalogEnv y"

fun yaml_set :: "ServiceType \<Rightarrow> binding list option \<Rightarrow> yaml_doc \<Rightarrow> yaml_doc" where
  "yaml_set serviceEnv v y = y\<lparr>yaml_serviceEnv := v\<rparr>"
| "yaml_set serviceCatalogEnv v y = y\<lparr>yaml_serviceCatalogEnv := v\<rparr>"

record ChartYaml =
  path :: string
  yaml :: yaml_doc

record ShellResult =
  code :: int
  stdout :: string
  stderr :: string

text \<open>A secret's \<open>data\<close> object: its keys with their values, in key order.\<close>

type_synonym js_object = "(string \<times> string) list"

definition Object_keys :: "js_object \<Rightarrow> string list" where
  "Object_keys obj = map fst obj"

section \<open>The collaborators\<close>

text \<open>
  What the component calls and does not define: the chart picker, yamljs, kubectl and
  the shell, the quick pick, \<open>JSON.parse\<close> of the two kubectl outputs, the file
  system and \<open>toUpperCase\<close>. Each is a parameter; \<open>Inl\<close> is a raised exception (a
  rejected promise), and for the two file operations \<open>Some e\<close> is one. The chart
  picker is taken to call back with a path, and the notices and the clipboard to accept
  what they are given.
  \<open>jsonServices\<close> stands for \<open>JSON.parse(stdout).items\<close> with each item's
  \<open>metadata.name\<close> and \<open>metadata.namespace\<close>; \<open>jsonSecretData\<close> for
  \<open>JSON.parse(stdout).data\<close>, \<open>None\<close> when the parsed object has no \<open>data\<close>.
\<close>

record world =
  pickChart :: string
  yamlLoad :: "string \<Rightarrow> js_error + yaml_doc"
  yamlStringify :: "yaml_doc \<Rightarrow> string"
  kubectlInvoke :: "string \<Rightarrow> js_error + ShellResult"
  execCore :: "string \<Rightarrow> js_error + ShellResult"
  showQuickPick :: "jsval list \<Rightarrow> jsval"
  jsonServices :: "string \<Rightarrow> js_error + Service list"
  jsonSecretData :: "string \<Rightarrow> js_error + js_object option"
  unlinkAsync :: "string \<Rightarrow> js_error option"
  writeFile :: "string \<Rightarrow> string \<Rightarrow> js_error option"
  toUpperCase :: "string \<Rightarrow> string"

text \<open>
  What a flow does to the outside, in order: the notices it shows, the commands it
  runs, the file operations it issues and what it puts on the clipboard.
\<close>

datatype event =
    InfoMessage string
  | ErrorMessage string
  | Kubectl string
  | Shell string
  | Unlink string
  | WriteFile string string
  | ClipboardWrite string

fun is_error_notice :: "event \<Rightarrow> bool" where
  "is_error_notice (ErrorMessage _) = True"
| "is_error_notice _ = False"

fun is_persistence :: "event \<Rightarrow> bool" where
  "is_persistence (Unlink _) = True"
| "is_persistence (WriteFile _ _) = True"
| "is_persistence _ = False"

fun is_command :: "event \<Rightarrow> bool" where
  "is_command (Kubectl _) = True"
| "is_command (Shell _) = True"
| "is_command _ = False"

section \<open>binding.ts: the instance cache and its parser\<close>

text \<open>
  The loop of \<open>cleanUpInstanceResults\<close>: one record per line, stored in the three
  caches and appended to \<open>cleanedResults\<close>.
\<close>

fun cleanUp_loop ::
  "string list \<Rightarrow> cache \<Rightarrow> ServiceInstance list \<Rightarrow> cache \<times> ServiceInstance list" where
  "cleanUp_loop [] c cleanedResults = (c, cleanedResults)"
| "cleanUp_loop (line # rest) c cleanedResults =
     (let filtered = filter (\<lambda>s. length s \<noteq> 0) (split_js CHR '' '' line);
          serviceInstance =
            \<lparr>si_name = at_index filtered 0,
             si_namespace = at_index filtered 1,
             si_class = at_index filtered 2,
             si_plan = at_index filtered 3,
             si_status = at_index filtered 4\<rparr>;
          c' = c\<lparr>ServiceInstanceMap :=
                    assign_key (toString (si_name serviceInstance)) serviceInstance
                      (ServiceInstanceMap c),
                  ServiceInstanceNames :=
                    ServiceInstanceNames c @ [si_name serviceInstance],
                  ServiceInstanceArray := ServiceInstanceArray c @ [serviceInstance]\<rparr>
      in cleanUp_loop rest c' (cleanedResults @ [serviceInstance]))"

definition cleanUpInstanceResults :: "string \<Rightarrow> cache \<Rightarrow> cache \<times> ServiceInstance list" where
  "cleanUpInstanceResults results c =
     (let splitResults = filter (\<lambda>s. length s \<noteq> 0) (drop 2 (split_js NL results))
      in cleanUp_loop splitResults c [])"

text \<open>
  \<open>getServiceInstances\<close> returns the array, or \<open>undefined\<close> (\<open>None\<close>) after an
  error notice; it catches the shell's exception and raises none.
\<close>

definition getServiceInstances ::
  "world \<Rightarrow> cache \<Rightarrow> ServiceInstance list option \<times> cache \<times> event list" where
  "getServiceInstances w c =
     (if length (ServiceInstanceNames c) \<noteq> 0 \<and> length (map fst (ServiceInstanceMap c)) \<noteq> 0
      then (Some (ServiceInstanceArray c), c, [])
      else (case execCore w ''svcat get instances'' of
              Inl e \<Rightarrow>
                (None, c,
                 [Shell ''svcat get instances'',
                  ErrorMessage ''Error retrieving Service Instances''])
            | Inr results \<Rightarrow>
                if code results \<noteq> 0
                then (None, c,
                      [Shell ''svcat get instances'',
                       ErrorMessage ''Error retrieving Service Instances''])
                else (let (c', cleaned) = cleanUpInstanceResults (stdout results) c
                      in (Some cleaned, c', [Shell ''svcat get instances'']))))"

section \<open>util.ts\<close>

text \<open>
  \<open>writeSecretData\<close> changes the document held by \<open>chartYaml\<close> in place, then removes
  the file and writes it again. The result is the outcome, the \<open>chartYaml\<close> object as
  the caller sees it afterwards, and the file operations issued. A failed \<open>unlink\<close>
  raises before the write.
\<close>

definition writeSecretData ::
  "ServiceType \<Rightarrow> string \<Rightarrow> binding_value \<Rightarrow> ChartYaml \<Rightarrow> world
     \<Rightarrow> (js_error + unit) \<times> ChartYaml \<times> event list" where
  "writeSecretData serviceType bindingName value chartYaml w =
     (let chartYaml' =
            (case serviceType of
               serviceEnv \<Rightarrow>
                 (let serviceBinding = ServiceBinding bindingName value
                  in (case yaml_serviceEnv (yaml chartYaml) of
                        Some env \<Rightarrow>
                          chartYaml\<lparr>yaml := (yaml chartYaml)
                            \<lparr>yaml_serviceEnv := Some (env @ [serviceBinding])\<rparr>\<rparr>
                      | None \<Rightarrow>
                          chartYaml\<lparr>yaml := (yaml chartYaml)
                            \<lparr>yaml_serviceEnv := Some [serviceBinding]\<rparr>\<rparr>))
             | serviceCatalogEnv \<Rightarrow>
                 (let serviceCatalogBinding = ServiceCatalogBinding bindingName value
                  in (case yaml_serviceCatalogEnv (yaml chartYaml) of
                        Some env \<Rightarrow>
                          chartYaml\<lparr>yaml := (yaml chartYaml)
                            \<lparr>yaml_serviceCatalogEnv := Some (env @ [serviceCatalogBinding])\<rparr>\<rparr>
                      | None \<Rightarrow>
                          chartYaml\<lparr>yaml := (yaml chartYaml)
                            \<lparr>yaml_serviceCatalogEnv := Some [serviceCatalogBinding]\<rparr>\<rparr>)))
      in (case unlinkAsync w (path chartYaml') of
            Some e \<Rightarrow> (Inl e, chartYaml', [Unlink (path chartYaml')])
          | None \<Rightarrow>
              (case writeFile w (path chartYaml') (yamlStringify w (yaml chartYaml')) of
                 Some e \<Rightarrow>
                   (Inl e, chartYaml',
                    [Unlink (path chartYaml'),
                     WriteFile (path chartYaml') (yamlStringify w (yaml chartYaml'))])
               | None \<Rightarrow>
                   (Inr (), chartYaml',
                    [Unlink (path chartYaml'),
                     WriteFile (path chartYaml') (yamlStringify w (yaml chartYaml'))]))))"

definition isBindingAdded :: "ServiceType \<Rightarrow> string \<Rightarrow> yaml_doc \<Rightarrow> bool" where
  "isBindingAdded serviceType bindingName valuesYaml =
     (case yaml_get serviceType valuesYaml of
        None \<Rightarrow> False
      | Some environment \<Rightarrow> list_ex (\<lambda>binding. name binding = bindingName) environment)"

text \<open>What \<open>for (const variableName of secretKeys)\<close> visits: the characters of a
  string, the elements of an array.\<close>

fun iterate :: "binding_value \<Rightarrow> string list" where
  "iterate (Single s) = map (\<lambda>ch. [ch]) s"
| "iterate (Many ks) = ks"

definition writeUsageToClipboard ::
  "ServiceType \<Rightarrow> string \<Rightarrow> binding_value \<Rightarrow> world \<Rightarrow> event list" where
  "writeUsageToClipboard serviceType bindingName secretKeys w =
     (if serviceType = serviceEnv
      then [ClipboardWrite
              (''// To use service '' @ bindingName @
               '', we added an environment variable containing the DNS hostname: SERVICE_'' @
               toUpperCase w bindingName)]
      else (let environmentVariableMessages =
                  map (\<lambda>variableName.
                         ''// '' @ toUpperCase w (bindingName @ ''_'' @ variableName))
                    (iterate secretKeys);
                message =
                  ''// To use service '' @ bindingName @
                  '', we added a number of environment variables'' @ [NL] @
                  ''// to your application, as listed below:'' @ [NL] @
                  join [NL] environmentVariableMessages
            in [InfoMessage ''Wrote Service Usage information to your clipboard.'',
                ClipboardWrite message]))"

definition loadChartValues :: "world \<Rightarrow> js_error + ChartYaml" where
  "loadChartValues w =
     (let chartPath = pickChart w;
          valuesFile = chartPath @ ''/values.yaml''
      in (case yamlLoad w valuesFile of
            Inl e \<Rightarrow> Inl e
          | Inr valuesYaml \<Rightarrow> Inr \<lparr>path = valuesFile, yaml = valuesYaml\<rparr>))"

text \<open>
  A flow's result: how it ended (\<open>Inl\<close> is an exception that leaves the flow), the
  \<open>chartYaml\<close> object at that point when one was loaded, and the events. The read
  \<open>chartYaml.yaml[serviceType].length\<close> raises a \<open>TypeError\<close> when the section is
  absent.
\<close>

definition removeServiceBinding ::
  "ServiceType \<Rightarrow> world \<Rightarrow> (js_error + unit) \<times> ChartYaml option \<times> event list" where
  "removeServiceBinding serviceType w =
     (case loadChartValues w of
        Inl e \<Rightarrow> (Inl e, None, [])
      | Inr chartYaml \<Rightarrow>
          (case yaml_get serviceType (yaml chartYaml) of
             None \<Rightarrow> (Inl TypeError, Some chartYaml, [])
           | Some section \<Rightarrow>
               if length section = 0
               then (Inr (), Some chartYaml, [InfoMessage ''No Services to remove.''])
               else (let chartBindings = map (\<lambda>binding. Str (name binding)) section;
                         bindingToRemove = showQuickPick w chartBindings
                     in if bindingToRemove = Undefined \<or> bindingToRemove = Str []
                        then (Inr (), Some chartYaml, [])
                        else (let prunedChartBindings =
                                    filter (\<lambda>binding. Str (name binding) \<noteq> bindingToRemove)
                                      section;
                                  chartYaml' =
                                    chartYaml\<lparr>yaml :=
                                      yaml_set serviceType (Some prunedChartBindings)
                                        (yaml chartYaml)\<rparr>
                              in (case unlinkAsync w (path chartYaml') of
                                    Some e \<Rightarrow>
                                      (Inl e, Some chartYaml', [Unlink (path chartYaml')])
                                  | None \<Rightarrow>
                                      (case writeFile w (path chartYaml')
                                              (yamlStringify w (yaml chartYaml')) of
                                         Some e \<Rightarrow>
                                           (Inl e, Some chartYaml',
                                            [Unlink (path chartYaml'),
                                             WriteFile (path chartYaml')
                                               (yamlStringify w (yaml chartYaml'))])
                                       | None \<Rightarrow>
                                           (Inr (), Some chartYaml',
                                            [Unlink (path chartYaml'),
                                             WriteFile (path chartYaml')
                                               (yamlStringify w (yaml chartYaml'))])))))))"

section \<open>binding.ts: the flows\<close>

text \<open>
  \<open>services.filter(...)[0]\<close> is \<open>undefined\<close> when no service has the selected name,
  and the read of its \<open>name\<close> raises.
\<close>

definition addService :: "world \<Rightarrow> (js_error + unit) \<times> ChartYaml option \<times> event list" where
  "addService w =
     (case loadChartValues w of
        Inl e \<Rightarrow> (Inl e, None, [])
      | Inr chartYaml \<Rightarrow>
          (case kubectlInvoke w ''get svc -o json'' of
             Inl e \<Rightarrow> (Inl e, Some chartYaml, [Kubectl ''get svc -o json''])
           | Inr serviceResult \<Rightarrow>
               if code serviceResult = - 1
               then (Inr (), Some chartYaml, [Kubectl ''get svc -o json''])
               else (case jsonServices w (stdout serviceResult) of
                       Inl e \<Rightarrow> (Inl e, Some chartYaml, [Kubectl ''get svc -o json''])
                     | Inr items \<Rightarrow>
                         if length items = 0
                         then (Inr (), Some chartYaml,
                               [Kubectl ''get svc -o json'',
                                InfoMessage ''No services found in current namespace''])
                         else (let services = items;
                                   serviceNames = map (\<lambda>service. Str (svc_name service)) items;
                                   selectedService = showQuickPick w serviceNames
                               in if selectedService = Str []
                                  then (Inr (), Some chartYaml, [Kubectl ''get svc -o json''])
                                  else (case filter (\<lambda>service. Str (svc_name service) = selectedService)
                                               services of
                                          [] \<Rightarrow>
                                            (Inl TypeError, Some chartYaml,
                                             [Kubectl ''get svc -o json''])
                                        | serviceObj # _ \<Rightarrow>
                                            (let dnsName =
                                                   svc_name serviceObj @ ''.'' @
                                                   svc_namespace serviceObj @ ''.svc.cluster.local''
                                             in if isBindingAdded serviceEnv (svc_name serviceObj)
                                                     (yaml chartYaml)
                                                then (Inr (), Some chartYaml,
                                                      [Kubectl ''get svc -o json''])
                                                else (case writeSecretData serviceEnv
                                                             (svc_name serviceObj) (Single dnsName)
                                                             chartYaml w of
                                                        (Inl e, chartYaml', evs) \<Rightarrow>
                                                          (Inl e, Some chartYaml',
                                                           Kubectl ''get svc -o json'' # evs)
                                                      | (Inr _, chartYaml', evs) \<Rightarrow>
                                                          (Inr (), Some chartYaml',
                                                           Kubectl ''get svc -o json'' # evs @
                                                           writeUsageToClipboard serviceEnv
                                                             (svc_name serviceObj)
                                                             (Single (svc_name serviceObj)) w @
                                                           [InfoMessage
                                                              ''Wrote service info to your clipboard'']))))))))"

definition removeService :: "world \<Rightarrow> (js_error + unit) \<times> ChartYaml option \<times> event list" where
  "removeService w = removeServiceBinding serviceEnv w"

definition removeExternalService ::
  "world \<Rightarrow> (js_error + unit) \<times> ChartYaml option \<times> event list" where
  "removeExternalService w = removeServiceBinding serviceCatalogEnv w"

text \<open>
  \<open>getSecretData\<close> returns the secret's \<open>data\<close>, or \<open>undefined\<close> (\<open>None\<close>) after an
  error notice; only \<open>JSON.parse\<close> can raise out of it.
\<close>

definition getSecretData :: "string \<Rightarrow> world \<Rightarrow> (js_error + js_object option) \<times> event list" where
  "getSecretData secretName w =
     (case kubectlInvoke w (''get secret '' @ secretName @ '' -o json'') of
        Inl e \<Rightarrow>
          (Inr None,
           [Kubectl (''get secret '' @ secretName @ '' -o json''),
            ErrorMessage (''Could not find the External Service secret '' @ secretName @
                          '' on the cluster'')])
      | Inr secretResults \<Rightarrow>
          if code secretResults \<noteq> 0
          then (Inr None,
                [Kubectl (''get secret '' @ secretName @ '' -o json''),
                 ErrorMessage (''Could not get External Service '' @ secretName @
                               '' on the cluster'')])
          else (case jsonSecretData w (stdout secretResults) of
                  Inl e \<Rightarrow> (Inl e, [Kubectl (''get secret '' @ secretName @ '' -o json'')])
                | Inr secretData \<Rightarrow>
                    (Inr secretData, [Kubectl (''get secret '' @ secretName @ '' -o json'')])))"

text \<open>
  \<open>createOrGetServiceBinding\<close>: the test \<open>if (results.stderr.indexOf("already exists"))\<close>
  is the truthiness of a number, that is \<open>\<noteq> 0\<close>. The bare \<open>return;\<close> of the
  \<open>catch\<close> gives \<open>undefined\<close>.
\<close>

definition createOrGetServiceBinding :: "jsval \<Rightarrow> world \<Rightarrow> jsval \<times> event list" where
  "createOrGetServiceBinding serviceName w =
     (case execCore w (''svcat bind '' @ toString serviceName) of
        Inl e \<Rightarrow>
          (Undefined,
           [Shell (''svcat bind '' @ toString serviceName),
            ErrorMessage (''Error binding to External Service '' @ [DQ] @
                          toString serviceName @ [DQ])])
      | Inr results \<Rightarrow>
          if code results \<noteq> 0
          then (if indexOf (stderr results) ''already exists'' \<noteq> 0
                then (serviceName, [Shell (''svcat bind '' @ toString serviceName)])
                else (Null,
                      [Shell (''svcat bind '' @ toString serviceName),
                       ErrorMessage (''Could not bind to External Service '' @ [DQ] @
                                     toString serviceName @ [DQ])]))
          else (serviceName, [Shell (''svcat bind '' @ toString serviceName)]))"

text \<open>
  \<open>addExternalService\<close> also returns the caches as it leaves them. Past the test
  \<open>!binding\<close> the binding is a non-empty string, which \<open>toString\<close> reads.
  \<open>Object.keys(secretData)\<close> raises a \<open>TypeError\<close> when \<open>secretData\<close> is \<open>undefined\<close>.
\<close>

definition addExternalService ::
  "world \<Rightarrow> cache \<Rightarrow> (js_error + unit) \<times> ChartYaml option \<times> cache \<times> event list" where
  "addExternalService w c =
     (case loadChartValues w of
        Inl e \<Rightarrow> (Inl e, None, c, [])
      | Inr chartYaml \<Rightarrow>
          (let (c1, evs1) =
                 (if length (ServiceInstanceNames c) = 0 \<and>
                     length (map fst (ServiceInstanceMap c)) = 0
                  then (case getServiceInstances w c of
                          (serviceInstances, c', evs) \<Rightarrow> (c', evs))
                  else (c, []));
               serviceToBind = showQuickPick w (ServiceInstanceNames c1);
               (binding, evs2) = createOrGetServiceBinding serviceToBind w
           in if \<not> truthy binding
              then (Inr (), Some chartYaml, c1, evs1 @ evs2)
              else if isBindingAdded serviceCatalogEnv (toString binding) (yaml chartYaml)
              then (Inr (), Some chartYaml, c1, evs1 @ evs2)
              else (case getSecretData (toString binding) w of
                      (Inl e, evs3) \<Rightarrow> (Inl e, Some chartYaml, c1, evs1 @ evs2 @ evs3)
                    | (Inr None, evs3) \<Rightarrow>
                        (Inl TypeError, Some chartYaml, c1, evs1 @ evs2 @ evs3)
                    | (Inr (Some secretData), evs3) \<Rightarrow>
                        (let secretKeys = Object_keys secretData
                         in (case writeSecretData serviceCatalogEnv (toString binding)
                                    (Many secretKeys) chartYaml w of
                               (Inl e, chartYaml', evs4) \<Rightarrow>
                                 (Inl e, Some chartYaml', c1, evs1 @ evs2 @ evs3 @ evs4)
                             | (Inr _, chartYaml', evs4) \<Rightarrow>
                                 (Inr (), Some chartYaml', c1,
                                  evs1 @ evs2 @ evs3 @ evs4 @
                                  writeUsageToClipboard serviceCatalogEnv (toString binding)
                                    (Many secretKeys) w @
                                  [InfoMessage
                                     (''Bound the application to External Service '' @ [DQ] @
                                      toString serviceToBind @ [DQ])]))))))"

section \<open>The states of the caches within one process\<close>

text \<open>
  A world in which the discovery lists no instance named \<open>__proto__\<close>: none of the
  records the parser makes of the table has that name.
\<close>

definition no_proto_instance :: "world \<Rightarrow> bool" where
  "no_proto_instance w =
     (case execCore w ''svcat get instances'' of
        Inl e \<Rightarrow> True
      | Inr results \<Rightarrow>
          \<not> list_ex (\<lambda>serviceInstance. si_name serviceInstance = Str ''__proto__'')
                (snd (cleanUpInstanceResults (stdout results) empty_cache)))"

text \<open>
  The caches are empty when the module is loaded, and only \<open>getServiceInstances\<close>
  and \<open>addExternalService\<close> touch them. These are the states they reach as long as no
  discovered instance is named \<open>__proto__\<close>.
\<close>

inductive reachable :: "cache \<Rightarrow> bool" where
  start: "reachable empty_cache"
| after_getServiceInstances:
    "reachable c \<Longrightarrow> no_proto_instance w \<Longrightarrow>
     getServiceInstances w c = (r, c', evs) \<Longrightarrow> reachable c'"
| after_addExternalService:
    "reachable c \<Longrightarrow> no_proto_instance w \<Longrightarrow>
     addExternalService w c = (r, doc, c', evs) \<Longrightarrow> reachable c'"

text \<open>
  The three views of the cache agree: the names are those of the records, in the same
  order, and the keys of the map are the names.
\<close>

definition cache_sync :: "cache \<Rightarrow> bool" where
  "cache_sync c =
     (ServiceInstanceNames c = map si_name (ServiceInstanceArray c) \<and>
      set (map fst (ServiceInstanceMap c)) = set (map toString (ServiceInstanceNames c)))"

section \<open>The parser as the specification words it\<close>

text \<open>
  The lines of a text are the pieces between its newline characters. The parser drops
  the first two lines and the empty lines; the fields of a line are its maximal runs of
  characters that are not separators, and the first five fill \<open>name\<close>, \<open>namespace\<close>,
  \<open>class\<close>, \<open>plan\<close>, \<open>status\<close>. The set of separators is a parameter.
\<close>

fun pieces :: "char \<Rightarrow> string \<Rightarrow> string \<Rightarrow> string list" where
  "pieces sep cur [] = [cur]"
| "pieces sep cur (c # cs) =
     (if c = sep then cur # pieces sep [] cs else pieces sep (cur @ [c]) cs)"

definition lines_of :: "string \<Rightarrow> string list" where
  "lines_of text = pieces NL [] text"

fun runs :: "(char \<Rightarrow> bool) \<Rightarrow> string \<Rightarrow> string \<Rightarrow> string list" where
  "runs sep cur [] = (if cur = [] then [] else [cur])"
| "runs sep cur (c # cs) =
     (if sep c then (if cur = [] then runs sep [] cs else cur # runs sep [] cs)
      else runs sep (cur @ [c]) cs)"

definition fields_of :: "(char \<Rightarrow> bool) \<Rightarrow> string \<Rightarrow> string list" where
  "fields_of sep line = runs sep [] line"

definition field :: "string list \<Rightarrow> nat \<Rightarrow> jsval" where
  "field fs i = (case drop i fs of [] \<Rightarrow> Undefined | f # _ \<Rightarrow> Str f)"

definition row_of :: "string list \<Rightarrow> ServiceInstance" where
  "row_of fs =
     \<lparr>si_name = field fs 0, si_namespace = field fs 1, si_class = field fs 2,
      si_plan = field fs 3, si_status = field fs 4\<rparr>"

definition parse_spec :: "(char \<Rightarrow> bool) \<Rightarrow> string \<Rightarrow> ServiceInstance list" where
  "parse_spec sep text =
     map (\<lambda>line. row_of (fields_of sep line))
       (filter (\<lambda>line. line \<noteq> []) (drop 2 (lines_of text)))"

definition is_space :: "char \<Rightarrow> bool" where
  "is_space ch = (ch = CHR '' '')"

text \<open>White space: space, tab, line feed, vertical tab, form feed, carriage return.\<close>

definition is_whitespace :: "char \<Rightarrow> bool" where
  "is_whitespace ch =
     (ch = CHR '' '' \<or> ch = CHR 0x09 \<or> ch = CHR 0x0A \<or> ch = CHR 0x0B \<or>
      ch = CHR 0x0C \<or> ch = CHR 0x0D)"

section \<open>Sample inputs\<close>

text \<open>
  A chart whose values.yaml binds the service \<open>redis\<close>, a cluster with the services
  \<open>redis\<close> and \<open>web\<close>, the instance \<open>foo\<close> in the service catalog, and a user who
  answers every prompt with \<open>pick\<close>. Every command succeeds.
\<close>

definition sample_doc :: yaml_doc where
  "sample_doc =
     \<lparr>yaml_serviceEnv =
        Some [ServiceBinding ''redis'' (Single ''redis.default.svc.cluster.local'')],
      yaml_serviceCatalogEnv = None,
      yaml_rest = [(''replicaCount'', ''1'')]\<rparr>"

definition sample_table :: string where
  "sample_table =
     ''TITLE'' @ [NL] @ ''NAME NAMESPACE CLASS PLAN STATUS'' @ [NL] @
     ''foo  default  mysqldb  free  Ready'' @ [NL]"

text \<open>The record of the sample table, and the caches once they hold it.\<close>

definition sample_instance :: ServiceInstance where
  "sample_instance =
     \<lparr>si_name = Str ''foo'', si_namespace = Str ''default'', si_class = Str ''mysqldb'',
      si_plan = Str ''free'', si_status = Str ''Ready''\<rparr>"

definition sample_cache :: cache where
  "sample_cache =
     \<lparr>ServiceInstanceNames = [Str ''foo''],
      ServiceInstanceArray = [sample_instance],
      ServiceInstanceMap = [(''foo'', sample_instance)]\<rparr>"

definition sample_stringify :: "yaml_doc \<Rightarrow> string" where
  "sample_stringify y =
     join [NL]
       (map name (case yaml_serviceEnv y of None \<Rightarrow> [] | Some bs \<Rightarrow> bs) @
        map name (case yaml_serviceCatalogEnv y of None \<Rightarrow> [] | Some bs \<Rightarrow> bs))"

definition sample_world :: "jsval \<Rightarrow> world" where
  "sample_world pick =
     \<lparr>pickChart = ''chart'',
      yamlLoad = (\<lambda>p. Inr sample_doc),
      yamlStringify = sample_stringify,
      kubectlInvoke = (\<lambda>cmd. Inr \<lparr>code = 0, stdout = ''{}'', stderr = []\<rparr>),
      execCore =
        (\<lambda>cmd. if cmd = ''svcat get instances''
               then Inr \<lparr>code = 0, stdout = sample_table, stderr = []\<rparr>
               else Inr \<lparr>code = 0, stdout = [], stderr = []\<rparr>),
      showQuickPick = (\<lambda>items. pick),
      jsonServices =
        (\<lambda>out. Inr [\<lparr>svc_name = ''redis'', svc_namespace = ''default''\<rparr>,
                     \<lparr>svc_name = ''web'', svc_namespace = ''default''\<rparr>]),
      jsonSecretData = (\<lambda>out. Inr (Some [(''host'', ''aG9zdA==''), (''port'', ''MzMwNg=='')])),
      unlinkAsync = (\<lambda>p. None),
      writeFile = (\<lambda>p s. None),
      toUpperCase = (\<lambda>s. s)\<rparr>"

text \<open>The same world with the shell's answer to every \<open>svcat bind\<close> replaced.\<close>

definition with_bind :: "(js_error + ShellResult) \<Rightarrow> world \<Rightarrow> world" where
  "with_bind r w =
     w\<lparr>execCore := (\<lambda>cmd. if cmd = ''svcat get instances'' then execCore w cmd else r)\<rparr>"

text \<open>The same world with another table printed by \<open>svcat get instances\<close>.\<close>

definition with_table :: "string \<Rightarrow> world \<Rightarrow> world" where
  "with_table table w =
     w\<lparr>execCore :=
         (\<lambda>cmd. if cmd = ''svcat get instances''
                then Inr \<lparr>code = 0, stdout = table, stderr = []\<rparr>
                else execCore w cmd)\<rparr>"

text \<open>A table with no instance, and one whose only instance is named \<open>__proto__\<close>.\<close>

definition empty_table :: string where
  "empty_table = ''TITLE'' @ [NL] @ ''NAME NAMESPACE CLASS PLAN STATUS'' @ [NL]"

definition proto_table :: string where
  "proto_table =
     ''TITLE'' @ [NL] @ ''NAME NAMESPACE CLASS PLAN STATUS'' @ [NL] @
     ''__proto__  default  mysqldb  free  Ready'' @ [NL]"

definition proto_instance :: ServiceInstance where
  "proto_instance =
     \<lparr>si_name = Str ''__proto__'', si_namespace = Str ''default'', si_class = Str ''mysqldb'',
      si_plan = Str ''free'', si_status = Str ''Ready''\<rparr>"

text \<open>The same world with kubectl's answer to every command replaced.\<close>

definition with_kubectl :: "(js_error + ShellResult) \<Rightarrow> world \<Rightarrow> world" where
  "with_kubectl r w = w\<lparr>kubectlInvoke := (\<lambda>cmd. r)\<rparr>"

text \<open>The same world with another document in values.yaml.\<close>

definition with_doc :: "yaml_doc \<Rightarrow> world \<Rightarrow> world" where
  "with_doc y w = w\<lparr>yamlLoad := (\<lambda>p. Inr y)\<rparr>"

section \<open>The parser\<close>

lemma split_js_not_Nil: "split_js sep s \<noteq> []"
  by (induction s) (auto split: list.splits)

lemma pieces_split_js:
  "pieces sep cur s = (case split_js sep s of [] \<Rightarrow> [cur] | w # ws \<Rightarrow> (cur @ w) # ws)"
proof (induction s arbitrary: cur)
  case Nil
  then show ?case by simp
next
  case (Cons a s)
  then show ?case
    using split_js_not_Nil [of sep s] by (auto split: list.splits)
qed

lemma lines_of_split_js: "lines_of input = split_js NL input"
  using split_js_not_Nil [of NL input]
  by (simp add: lines_of_def pieces_split_js split: list.splits)

lemma runs_split_js:
  "runs (\<lambda>ch. ch = sep) cur s =
     filter (\<lambda>x. x \<noteq> []) (case split_js sep s of [] \<Rightarrow> [cur] | w # ws \<Rightarrow> (cur @ w) # ws)"
  by (induction s arbitrary: cur) (auto split: list.splits)

lemma fields_of_split_js:
  "fields_of is_space line = filter (\<lambda>s. length s \<noteq> 0) (split_js CHR '' '' line)"
proof -
  have "runs is_space [] line = runs (\<lambda>ch. ch = CHR '' '') [] line"
    by (simp add: is_space_def [abs_def])
  then show ?thesis
    using split_js_not_Nil [of "CHR '' ''" line]
    by (simp add: fields_of_def runs_split_js split: list.splits)
qed

lemma field_at_index: "field fs i = at_index fs i"
proof (cases "i < length fs")
  case True
  then have "drop i fs = fs ! i # drop (Suc i) fs"
    by (simp add: Cons_nth_drop_Suc)
  with True show ?thesis by (simp add: field_def at_index_def)
next
  case False
  then show ?thesis by (simp add: field_def at_index_def)
qed


lemma cleanUp_loop_results:
  "snd (cleanUp_loop ls c acc) = acc @ map (\<lambda>line. row_of (fields_of is_space line)) ls"
proof (induction ls arbitrary: c acc)
  case Nil
  then show ?case by simp
next
  case (Cons line ls)
  show ?case
    unfolding cleanUp_loop.simps Let_def Cons.IH
    by (simp add: row_of_def field_at_index fields_of_split_js)
qed

lemma cleanUp_loop_array:
  "ServiceInstanceArray (fst (cleanUp_loop ls c acc)) =
     ServiceInstanceArray c @ map (\<lambda>line. row_of (fields_of is_space line)) ls"
proof (induction ls arbitrary: c acc)
  case Nil
  then show ?case by simp
next
  case (Cons line ls)
  show ?case
    unfolding cleanUp_loop.simps Let_def Cons.IH
    by (simp add: row_of_def field_at_index fields_of_split_js)
qed

section \<open>The instance cache\<close>

lemma toString_proto: "toString v = ''__proto__'' \<longleftrightarrow> v = Str ''__proto__''"
  by (cases v) auto

lemma cleanUp_loop_Cons:
  "cleanUp_loop (line # rest) c acc =
     (let i = row_of (fields_of is_space line)
      in cleanUp_loop rest
           (c\<lparr>ServiceInstanceMap := assign_key (toString (si_name i)) i (ServiceInstanceMap c),
              ServiceInstanceNames := ServiceInstanceNames c @ [si_name i],
              ServiceInstanceArray := ServiceInstanceArray c @ [i]\<rparr>)
           (acc @ [i]))"
  by (simp add: Let_def row_of_def field_at_index fields_of_split_js)

lemma cache_sync_push:
  assumes "cache_sync c" and "si_name i \<noteq> Str ''__proto__''"
  shows "cache_sync
           (c\<lparr>ServiceInstanceMap := assign_key (toString (si_name i)) i (ServiceInstanceMap c),
              ServiceInstanceNames := ServiceInstanceNames c @ [si_name i],
              ServiceInstanceArray := ServiceInstanceArray c @ [i]\<rparr>)"
  using assms
  by (simp add: cache_sync_def assign_key_def toString_proto AList.dom_update image_image)

lemma cleanUp_loop_sync:
  assumes "cache_sync c"
    and "\<not> list_ex (\<lambda>i. si_name i = Str ''__proto__'')
             (map (\<lambda>line. row_of (fields_of is_space line)) ls)"
  shows "cache_sync (fst (cleanUp_loop ls c acc))"
  using assms
proof (induction ls arbitrary: c acc)
  case Nil
  then show ?case by simp
next
  case (Cons line ls)
  from Cons.prems(2) have
    head: "si_name (row_of (fields_of is_space line)) \<noteq> Str ''__proto__''"
    and tail: "\<not> list_ex (\<lambda>i. si_name i = Str ''__proto__'')
                   (map (\<lambda>line. row_of (fields_of is_space line)) ls)"
    by simp_all
  show ?case
    unfolding cleanUp_loop_Cons Let_def
    by (rule Cons.IH [OF cache_sync_push [OF Cons.prems(1) head] tail])
qed

lemma cleanUpInstanceResults_rows:
  "snd (cleanUpInstanceResults out c) =
     map (\<lambda>line. row_of (fields_of is_space line))
       (filter (\<lambda>s. length s \<noteq> 0) (drop 2 (split_js NL out)))"
  by (simp add: cleanUpInstanceResults_def cleanUp_loop_results)

lemma getServiceInstances_sync:
  assumes "cache_sync c" and "no_proto_instance w"
    and "getServiceInstances w c = (r, c', evs)"
  shows "cache_sync c'"
proof -
  have "c' = c \<or>
        (\<exists>results. execCore w ''svcat get instances'' = Inr results \<and>
                   c' = fst (cleanUpInstanceResults (stdout results) c))"
    using assms(3)
    by (auto simp: getServiceInstances_def split: if_splits sum.splits prod.splits)
  then show ?thesis
  proof
    assume "c' = c"
    with assms(1) show ?thesis by simp
  next
    assume "\<exists>results. execCore w ''svcat get instances'' = Inr results \<and>
                   c' = fst (cleanUpInstanceResults (stdout results) c)"
    then obtain results where
      res: "execCore w ''svcat get instances'' = Inr results"
        "c' = fst (cleanUpInstanceResults (stdout results) c)"
      by blast
    from assms(2) res(1) have
      "\<not> list_ex (\<lambda>i. si_name i = Str ''__proto__'')
           (map (\<lambda>line. row_of (fields_of is_space line))
              (filter (\<lambda>s. length s \<noteq> 0) (drop 2 (split_js NL (stdout results)))))"
      by (simp add: no_proto_instance_def cleanUpInstanceResults_rows)
    from cleanUp_loop_sync [OF assms(1) this] res(2) show ?thesis
      by (simp add: cleanUpInstanceResults_def)
  qed
qed

lemma addExternalService_cache:
  assumes "addExternalService w c = (r, doc, c', evs)"
  shows "c' = c \<or> c' = fst (snd (getServiceInstances w c))"
  using assms
  by (auto simp: addExternalService_def Let_def
           split: if_splits sum.splits prod.splits option.splits)

lemma empty_cache_sync: "cache_sync empty_cache"
  by (simp add: cache_sync_def empty_cache_def)

lemma reachable_sync: "reachable c \<Longrightarrow> cache_sync c"
proof (induction rule: reachable.induct)
  case start
  show ?case by (rule empty_cache_sync)
next
  case (after_getServiceInstances c w r c' evs)
  then show ?case by (blast intro: getServiceInstances_sync)
next
  case (after_addExternalService c w r doc c' evs)
  from after_addExternalService.hyps(3)
  have "c' = c \<or> c' = fst (snd (getServiceInstances w c))"
    by (rule addExternalService_cache)
  then show ?case
  proof
    assume "c' = c"
    with after_addExternalService.IH show ?thesis by simp
  next
    assume *: "c' = fst (snd (getServiceInstances w c))"
    obtain r1 c1 e1 where g: "getServiceInstances w c = (r1, c1, e1)"
      by (cases "getServiceInstances w c") auto
    with * have "c' = c1" by simp
    with getServiceInstances_sync
           [OF after_addExternalService.IH after_addExternalService.hyps(2) g]
    show ?thesis by simp
  qed
qed

lemma cache_sync_empty_array:
  assumes "cache_sync c"
    and "length (ServiceInstanceNames c) = 0 \<or> length (map fst (ServiceInstanceMap c)) = 0"
  shows "ServiceInstanceArray c = []"
  using assms by (auto simp: cache_sync_def)

lemma cleanUpInstanceResults_sample:
  "snd (cleanUpInstanceResults sample_table c) =
     [\<lparr>si_name = Str ''foo'', si_namespace = Str ''default'', si_class = Str ''mysqldb'',
       si_plan = Str ''free'', si_status = Str ''Ready''\<rparr>]"
  by (simp add: cleanUpInstanceResults_def sample_table_def Let_def at_index_def)

text \<open>
  Claim C3, as the code has it. For every input, \<open>cleanUpInstanceResults\<close> returns the
  records of the specification's parser in which the only separator is the space
  character: it drops the first two lines and the empty lines, cuts every other line
  into its maximal runs of characters other than the space, fills \<open>name\<close>,
  \<open>namespace\<close>, \<open>class\<close>, \<open>plan\<close>, \<open>status\<close> from runs 0 to 4 (\<open>undefined\<close> where
  the line has fewer), and keeps the order of the lines. On the table of the scenario it
  returns the one record \<open>foo\<close>, whatever the caches hold.
\<close>

theorem cleanUpInstanceResults_parse:
  "snd (cleanUpInstanceResults input c) = parse_spec is_space input \<and>
   snd (cleanUpInstanceResults
          (''TITLE'' @ [NL] @ ''NAME NAMESPACE CLASS PLAN STATUS'' @ [NL] @
           ''foo  default  mysqldb  free  Ready'' @ [NL]) c) =
     [\<lparr>si_name = Str ''foo'', si_namespace = Str ''default'', si_class = Str ''mysqldb'',
       si_plan = Str ''free'', si_status = Str ''Ready''\<rparr>]"
proof
  show "snd (cleanUpInstanceResults input c) = parse_spec is_space input"
    by (simp add: cleanUpInstanceResults_def parse_spec_def cleanUp_loop_results
          lines_of_split_js)
  show "snd (cleanUpInstanceResults
          (''TITLE'' @ [NL] @ ''NAME NAMESPACE CLASS PLAN STATUS'' @ [NL] @
           ''foo  default  mysqldb  free  Ready'' @ [NL]) c) =
     [\<lparr>si_name = Str ''foo'', si_namespace = Str ''default'', si_class = Str ''mysqldb'',
       si_plan = Str ''free'', si_status = Str ''Ready''\<rparr>]"
    using cleanUpInstanceResults_sample [of c] by (simp add: sample_table_def)
qed

text \<open>
  Claim C3 as it is stated, with fields split on runs of white space, fails on a row
  whose columns are separated by a tab: \<open>split(' ')\<close> leaves the tab inside the first
  field, so the code returns the name \<open>foo<TAB>default\<close> and no namespace, where a split
  on white space gives the name \<open>foo\<close> and the namespace \<open>default\<close>.
\<close>

theorem cleanUpInstanceResults_tab_counterexample:
  "snd (cleanUpInstanceResults
          (''TITLE'' @ [NL] @ ''NAME NAMESPACE'' @ [NL] @ ''foo'' @ [TAB] @ ''default'')
          empty_cache) =
     [\<lparr>si_name = Str (''foo'' @ [TAB] @ ''default''), si_namespace = Undefined,
       si_class = Undefined, si_plan = Undefined, si_status = Undefined\<rparr>] \<and>
   parse_spec is_whitespace
          (''TITLE'' @ [NL] @ ''NAME NAMESPACE'' @ [NL] @ ''foo'' @ [TAB] @ ''default'') =
     [\<lparr>si_name = Str ''foo'', si_namespace = Str ''default'',
       si_class = Undefined, si_plan = Undefined, si_status = Undefined\<rparr>] \<and>
   snd (cleanUpInstanceResults
          (''TITLE'' @ [NL] @ ''NAME NAMESPACE'' @ [NL] @ ''foo'' @ [TAB] @ ''default'')
          empty_cache) \<noteq>
   parse_spec is_whitespace
          (''TITLE'' @ [NL] @ ''NAME NAMESPACE'' @ [NL] @ ''foo'' @ [TAB] @ ''default'')"
  by (simp add: cleanUpInstanceResults_def Let_def at_index_def parse_spec_def lines_of_def
        fields_of_def row_of_def field_def is_whitespace_def)

lemma cleanUpInstanceResults_array:
  assumes "cleanUpInstanceResults out c = (c', rows)"
  shows "ServiceInstanceArray c' = ServiceInstanceArray c @ rows"
proof -
  define ls where "ls = filter (\<lambda>s. length s \<noteq> 0) (drop 2 (split_js NL out))"
  from assms have loop: "cleanUp_loop ls c [] = (c', rows)"
    by (simp add: cleanUpInstanceResults_def ls_def)
  from cleanUp_loop_array [of ls c "[]"] cleanUp_loop_results [of ls c "[]"]
  show ?thesis by (simp add: loop)
qed

text \<open>
  Claim C4, as the code has it. Take caches whose three views agree, as they do when
  the module is loaded and for as long as no discovered instance is named \<open>__proto__\<close>,
  and two consecutive calls of \<open>getServiceInstances\<close> (the shell may answer differently
  each time). If the name list and the map are non-empty at the second call, then the
  second call runs no command, shows nothing, leaves the caches alone and returns the
  same records as the first call, namely the cached array; and the two calls together
  run the discovery command at most once.
\<close>

theorem getServiceInstances_cached:
  assumes "cache_sync c"
    and "getServiceInstances w1 c = (r1, c1, evs1)"
    and "getServiceInstances w2 c1 = (r2, c2, evs2)"
    and "ServiceInstanceNames c1 \<noteq> []"
    and "ServiceInstanceMap c1 \<noteq> []"
  shows "r2 = r1 \<and> r1 = Some (ServiceInstanceArray c1) \<and> evs2 = [] \<and> c2 = c1 \<and>
         length (filter is_command (evs1 @ evs2)) \<le> 1"
proof -
  from assms(3-5) have second: "r2 = Some (ServiceInstanceArray c1)" "c2 = c1" "evs2 = []"
    by (auto simp: getServiceInstances_def)
  have first: "r1 = Some (ServiceInstanceArray c1) \<and> length (filter is_command evs1) \<le> 1"
  proof (cases "length (ServiceInstanceNames c) \<noteq> 0 \<and>
                length (map fst (ServiceInstanceMap c)) \<noteq> 0")
    case True
    with assms(2) show ?thesis by (auto simp: getServiceInstances_def)
  next
    case False
    then have empty: "ServiceInstanceArray c = []"
      using cache_sync_empty_array [OF assms(1)] by auto
    from False assms(2,4,5) have
      "\<exists>out rows. cleanUpInstanceResults out c = (c1, rows) \<and> r1 = Some rows \<and>
         evs1 = [Shell ''svcat get instances'']"
      by (auto simp: getServiceInstances_def split: sum.splits if_splits prod.splits)
    then obtain out rows where
      res: "cleanUpInstanceResults out c = (c1, rows)" "r1 = Some rows"
        "evs1 = [Shell ''svcat get instances'']"
      by blast
    from cleanUpInstanceResults_array [OF res(1)] empty res(2,3)
    show ?thesis by simp
  qed
  with second show ?thesis by simp
qed

lemma getServiceInstances_sample:
  "getServiceInstances (sample_world pick) empty_cache =
     (Some [sample_instance], sample_cache, [Shell ''svcat get instances''])"
  by (simp add: getServiceInstances_def sample_world_def empty_cache_def
        cleanUpInstanceResults_def sample_table_def Let_def at_index_def
        sample_instance_def sample_cache_def assign_key_def)

text \<open>
  The two calls from the empty caches, on the sample table: the first call runs the
  discovery and returns the record \<open>foo\<close>, the second returns it from the cache.
\<close>

theorem getServiceInstances_cached_witness:
  "cache_sync empty_cache \<and>
   (case getServiceInstances (sample_world Undefined) empty_cache of
      (r1, c1, evs1) \<Rightarrow>
        (case getServiceInstances (sample_world (Str ''foo'')) c1 of
           (r2, c2, evs2) \<Rightarrow>
             ServiceInstanceNames c1 \<noteq> [] \<and> ServiceInstanceMap c1 \<noteq> [] \<and>
             r2 = r1 \<and> evs2 = [] \<and> c2 = c1 \<and>
             r1 = Some [sample_instance] \<and>
             length (filter is_command (evs1 @ evs2)) \<le> 1))"
proof -
  obtain r1 c1 evs1 where first:
    "getServiceInstances (sample_world Undefined) empty_cache = (r1, c1, evs1)"
    by (cases "getServiceInstances (sample_world Undefined) empty_cache") auto
  obtain r2 c2 evs2 where second:
    "getServiceInstances (sample_world (Str ''foo'')) c1 = (r2, c2, evs2)"
    by (cases "getServiceInstances (sample_world (Str ''foo'')) c1") auto
  from first getServiceInstances_sample [of Undefined]
  have c1: "ServiceInstanceNames c1 \<noteq> []" "ServiceInstanceMap c1 \<noteq> []"
    and r1: "r1 = Some [sample_instance]"
    by (auto simp: sample_cache_def)
  from getServiceInstances_cached [OF empty_cache_sync first second c1] r1 c1
  show ?thesis
    by (simp add: first second empty_cache_sync)
qed

text \<open>
  Claim C4 as it is stated fails twice. First, the discovery can run twice: on a table
  with no instance the caches stay empty, and the second of two calls runs the command
  again. Second, the name \<open>__proto__\<close> adds no key to the map: after a discovery that
  finds only that instance the name list is non-empty and the map empty, so the next
  call discovers again and appends to the array; it returns the one record it has just
  parsed, and the call after it, with the name list and the map non-empty, returns the
  two records of the array.
\<close>

theorem getServiceInstances_cached_counterexample:
  "(case getServiceInstances (with_table empty_table (sample_world Undefined)) empty_cache of
      (r1, c1, evs1) \<Rightarrow>
        (case getServiceInstances (with_table empty_table (sample_world Undefined)) c1 of
           (r2, c2, evs2) \<Rightarrow>
             filter is_command (evs1 @ evs2) =
               [Shell ''svcat get instances'', Shell ''svcat get instances''])) \<and>
   (case getServiceInstances (with_table proto_table (sample_world Undefined)) empty_cache of
      (r1, c1, evs1) \<Rightarrow>
        (case getServiceInstances (sample_world Undefined) c1 of
           (r2, c2, evs2) \<Rightarrow>
             (case getServiceInstances (sample_world Undefined) c2 of
                (r3, c3, evs3) \<Rightarrow>
                  ServiceInstanceNames c2 \<noteq> [] \<and> ServiceInstanceMap c2 \<noteq> [] \<and>
                  r2 = Some [sample_instance] \<and>
                  r3 = Some [proto_instance, sample_instance] \<and> r3 \<noteq> r2)))"
proof
  have empty: "getServiceInstances (with_table empty_table (sample_world Undefined)) empty_cache =
      (Some [], empty_cache, [Shell ''svcat get instances''])"
    by (simp add: getServiceInstances_def with_table_def sample_world_def empty_cache_def
          cleanUpInstanceResults_def empty_table_def Let_def)
  show "case getServiceInstances (with_table empty_table (sample_world Undefined)) empty_cache of
      (r1, c1, evs1) \<Rightarrow>
        (case getServiceInstances (with_table empty_table (sample_world Undefined)) c1 of
           (r2, c2, evs2) \<Rightarrow>
             filter is_command (evs1 @ evs2) =
               [Shell ''svcat get instances'', Shell ''svcat get instances''])"
    by (simp add: empty)
next
  have first: "getServiceInstances (with_table proto_table (sample_world Undefined)) empty_cache =
      (Some [proto_instance],
       \<lparr>ServiceInstanceNames = [Str ''__proto__''],
        ServiceInstanceArray = [proto_instance],
        ServiceInstanceMap = []\<rparr>,
       [Shell ''svcat get instances''])"
    by (simp add: getServiceInstances_def with_table_def sample_world_def empty_cache_def
          cleanUpInstanceResults_def proto_table_def Let_def at_index_def assign_key_def
          proto_instance_def)
  have second: "getServiceInstances (sample_world Undefined)
       \<lparr>ServiceInstanceNames = [Str ''__proto__''],
        ServiceInstanceArray = [proto_instance],
        ServiceInstanceMap = []\<rparr> =
      (Some [sample_instance],
       \<lparr>ServiceInstanceNames = [Str ''__proto__'', Str ''foo''],
        ServiceInstanceArray = [proto_instance, sample_instance],
        ServiceInstanceMap = [(''foo'', sample_instance)]\<rparr>,
       [Shell ''svcat get instances''])"
    by (simp add: getServiceInstances_def sample_world_def
          cleanUpInstanceResults_def sample_table_def Let_def at_index_def assign_key_def
          sample_instance_def)
  have third: "getServiceInstances (sample_world Undefined)
       \<lparr>ServiceInstanceNames = [Str ''__proto__'', Str ''foo''],
        ServiceInstanceArray = [proto_instance, sample_instance],
        ServiceInstanceMap = [(''foo'', sample_instance)]\<rparr> =
      (Some [proto_instance, sample_instance],
       \<lparr>ServiceInstanceNames = [Str ''__proto__'', Str ''foo''],
        ServiceInstanceArray = [proto_instance, sample_instance],
        ServiceInstanceMap = [(''foo'', sample_instance)]\<rparr>,
       [])"
    by (simp add: getServiceInstances_def)
  show "case getServiceInstances (with_table proto_table (sample_world Undefined)) empty_cache of
      (r1, c1, evs1) \<Rightarrow>
        (case getServiceInstances (sample_world Undefined) c1 of
           (r2, c2, evs2) \<Rightarrow>
             (case getServiceInstances (sample_world Undefined) c2 of
                (r3, c3, evs3) \<Rightarrow>
                  ServiceInstanceNames c2 \<noteq> [] \<and> ServiceInstanceMap c2 \<noteq> [] \<and>
                  r2 = Some [sample_instance] \<and>
                  r3 = Some [proto_instance, sample_instance] \<and> r3 \<noteq> r2))"
    by (simp add: first second third)
qed

section \<open>Writing a binding\<close>

lemma writeSecretData_serviceEnv_doc:
  "yaml (fst (snd (writeSecretData serviceEnv n v chartYaml w))) =
     (yaml chartYaml)\<lparr>yaml_serviceEnv :=
        Some ((case yaml_serviceEnv (yaml chartYaml) of None \<Rightarrow> [] | Some env \<Rightarrow> env) @
              [ServiceBinding n v])\<rparr>"
  by (simp add: writeSecretData_def Let_def split: option.splits)

lemma writeSecretData_serviceCatalogEnv_doc:
  "yaml (fst (snd (writeSecretData serviceCatalogEnv n v chartYaml w))) =
     (yaml chartYaml)\<lparr>yaml_serviceCatalogEnv :=
        Some ((case yaml_serviceCatalogEnv (yaml chartYaml) of None \<Rightarrow> [] | Some env \<Rightarrow> env) @
              [ServiceCatalogBinding n v])\<rparr>"
  by (simp add: writeSecretData_def Let_def split: option.splits)

lemma writeSecretData_path:
  "path (fst (snd (writeSecretData t n v chartYaml w))) = path chartYaml"
  by (cases t) (simp_all add: writeSecretData_def Let_def split: option.splits)

lemma writeSecretData_events:
  assumes "writeSecretData t n v chartYaml w = (r, chartYaml', evs)"
  shows "evs = [Unlink (path chartYaml')] \<or>
         evs = [Unlink (path chartYaml'),
                WriteFile (path chartYaml') (yamlStringify w (yaml chartYaml'))]"
  using assms by (auto simp: writeSecretData_def Let_def split: option.splits)

text \<open>
  Claim C5. For every binding name, value and document, and whatever the file system
  answers, \<open>writeSecretData\<close> leaves in the \<open>chartYaml\<close> object the old document with one
  entry appended to the section of the service kind: \<open>{name, value}\<close> at the end of
  \<open>serviceEnv\<close>, or \<open>{name, vars}\<close> at the end of \<open>serviceCatalogEnv\<close>, the section being
  that one entry when it was absent. The other section, the rest of the document and
  the path are unchanged.
\<close>

theorem writeSecretData_appends:
  "yaml_serviceEnv (yaml (fst (snd (writeSecretData serviceEnv n v chartYaml w)))) =
     (case yaml_serviceEnv (yaml chartYaml) of
        None \<Rightarrow> Some [ServiceBinding n v]
      | Some env \<Rightarrow> Some (env @ [ServiceBinding n v])) \<and>
   yaml_serviceCatalogEnv (yaml (fst (snd (writeSecretData serviceEnv n v chartYaml w)))) =
     yaml_serviceCatalogEnv (yaml chartYaml) \<and>
   yaml_rest (yaml (fst (snd (writeSecretData serviceEnv n v chartYaml w)))) =
     yaml_rest (yaml chartYaml) \<and>
   path (fst (snd (writeSecretData serviceEnv n v chartYaml w))) = path chartYaml \<and>
   yaml_serviceCatalogEnv
       (yaml (fst (snd (writeSecretData serviceCatalogEnv n v chartYaml w)))) =
     (case yaml_serviceCatalogEnv (yaml chartYaml) of
        None \<Rightarrow> Some [ServiceCatalogBinding n v]
      | Some env \<Rightarrow> Some (env @ [ServiceCatalogBinding n v])) \<and>
   yaml_serviceEnv (yaml (fst (snd (writeSecretData serviceCatalogEnv n v chartYaml w)))) =
     yaml_serviceEnv (yaml chartYaml) \<and>
   yaml_rest (yaml (fst (snd (writeSecretData serviceCatalogEnv n v chartYaml w)))) =
     yaml_rest (yaml chartYaml) \<and>
   path (fst (snd (writeSecretData serviceCatalogEnv n v chartYaml w))) = path chartYaml"
  by (simp add: writeSecretData_serviceEnv_doc writeSecretData_serviceCatalogEnv_doc
        writeSecretData_path split: option.splits)

section \<open>Adding a service that is already bound\<close>

lemma loadChartValues_Inr:
  assumes "yamlLoad w (pickChart w @ ''/values.yaml'') = Inr y"
  shows "loadChartValues w = Inr \<lparr>path = pickChart w @ ''/values.yaml'', yaml = y\<rparr>"
  using assms by (simp add: loadChartValues_def)

text \<open>
  Claim C2. Let values.yaml load with a \<open>serviceEnv\<close> section that has an entry named
  \<open>X\<close>, and let the user answer the prompt with \<open>X\<close>. Then \<open>addService\<close>, however
  kubectl answers, ends with the document as it was loaded (so the section has the same
  entries) and issues neither a delete nor a write of a file.
\<close>

theorem addService_duplicate:
  assumes "yamlLoad w (pickChart w @ ''/values.yaml'') = Inr y"
    and "yaml_serviceEnv y = Some env"
    and "list_ex (\<lambda>binding. name binding = X) env"
    and "\<And>items. showQuickPick w items = Str X"
  shows "fst (snd (addService w)) = Some \<lparr>path = pickChart w @ ''/values.yaml'', yaml = y\<rparr> \<and>
         filter is_persistence (snd (snd (addService w))) = []"
proof -
  have added: "isBindingAdded serviceEnv X y"
    using assms(2,3) by (simp add: isBindingAdded_def)
  have pick: "\<And>(s::Service) rest items.
      filter (\<lambda>service. svc_name service = X) items = s # rest \<Longrightarrow> svc_name s = X"
  proof -
    fix s :: Service and rest items :: "Service list"
    assume "filter (\<lambda>service. svc_name service = X) items = s # rest"
    then have "s \<in> set (filter (\<lambda>service. svc_name service = X) items)" by simp
    then show "svc_name s = X" by simp
  qed
  show ?thesis
    unfolding addService_def loadChartValues_Inr [OF assms(1)]
    using added
    by (auto simp: assms(4) Let_def dest: pick split: sum.splits list.splits)
qed

text \<open>
  The sample chart binds \<open>redis\<close>; the user picks \<open>redis\<close> again.
\<close>

theorem addService_duplicate_witness:
  "yamlLoad (sample_world (Str ''redis'')) (pickChart (sample_world (Str ''redis'')) @ ''/values.yaml'') =
     Inr sample_doc \<and>
   yaml_serviceEnv sample_doc =
     Some [ServiceBinding ''redis'' (Single ''redis.default.svc.cluster.local'')] \<and>
   list_ex (\<lambda>binding. name binding = ''redis'')
     [ServiceBinding ''redis'' (Single ''redis.default.svc.cluster.local'')] \<and>
   fst (snd (addService (sample_world (Str ''redis'')))) =
     Some \<lparr>path = ''chart/values.yaml'', yaml = sample_doc\<rparr> \<and>
   filter is_persistence (snd (snd (addService (sample_world (Str ''redis''))))) = []"
proof -
  let ?w = "sample_world (Str ''redis'')"
  have h1: "yamlLoad ?w (pickChart ?w @ ''/values.yaml'') = Inr sample_doc"
    by (simp add: sample_world_def)
  have h2: "yaml_serviceEnv sample_doc =
      Some [ServiceBinding ''redis'' (Single ''redis.default.svc.cluster.local'')]"
    by (simp add: sample_doc_def)
  have h3: "list_ex (\<lambda>binding. name binding = ''redis'')
      [ServiceBinding ''redis'' (Single ''redis.default.svc.cluster.local'')]"
    by simp
  have h4: "\<And>items. showQuickPick ?w items = Str ''redis''"
    by (simp add: sample_world_def)
  have p: "pickChart ?w = ''chart''"
    by (simp add: sample_world_def)
  from addService_duplicate [OF h1 h2 h3 h4] h1 h2 h3 p show ?thesis
    by simp
qed

section \<open>Removing a binding\<close>

text \<open>
  Claim C6. A selection is a string other than the empty one: the flow takes the empty
  string, like \<open>undefined\<close>, for "no selection was made". Let values.yaml load with
  the section of the service kind present, and let the prompt answer with the string
  \<open>Y\<close>. Then \<open>removeServiceBinding\<close> ends with the section present, and:
  when \<open>Y\<close> is a selection, the section holds the old entries whose name is not \<open>Y\<close>,
  in their order, so that when exactly one entry was named \<open>Y\<close> the section is one
  shorter and has no entry named \<open>Y\<close>; for every string \<open>Y\<close>, when no entry was named
  \<open>Y\<close> the section has the same entries as before. When \<open>Y\<close> is a selection, the
  section was not empty and the delete succeeds, the flow writes that document to the
  file.
\<close>

theorem removeServiceBinding_removes:
  assumes "yamlLoad w (pickChart w @ ''/values.yaml'') = Inr y"
    and "yaml_get t y = Some entries"
    and "showQuickPick w (map (\<lambda>binding. Str (name binding)) entries) = Str Y"
  shows "\<exists>r chartYaml' evs entries'.
           removeServiceBinding t w = (r, Some chartYaml', evs) \<and>
           yaml_get t (yaml chartYaml') = Some entries' \<and>
           (Y \<noteq> [] \<longrightarrow> entries' = filter (\<lambda>binding. name binding \<noteq> Y) entries) \<and>
           (Y \<noteq> [] \<longrightarrow> length (filter (\<lambda>binding. name binding = Y) entries) = 1 \<longrightarrow>
              length entries' = length entries - 1 \<and>
              \<not> list_ex (\<lambda>binding. name binding = Y) entries') \<and>
           (\<not> list_ex (\<lambda>binding. name binding = Y) entries \<longrightarrow> entries' = entries) \<and>
           (Y \<noteq> [] \<longrightarrow> entries \<noteq> [] \<longrightarrow> unlinkAsync w (path chartYaml') = None \<longrightarrow>
              WriteFile (path chartYaml') (yamlStringify w (yaml chartYaml')) \<in> set evs)"
proof (cases "Y = []")
  case True
  have "removeServiceBinding t w =
          (Inr (), Some \<lparr>path = pickChart w @ ''/values.yaml'', yaml = y\<rparr>,
           if entries = [] then [InfoMessage ''No Services to remove.''] else [])"
    unfolding removeServiceBinding_def loadChartValues_Inr [OF assms(1)]
    using assms(2,3) True by (simp add: Let_def)
  with assms(2) True show ?thesis by simp
next
  case False
  have len: "length (filter (\<lambda>binding. name binding = Y) entries) +
             length (filter (\<lambda>binding. name binding \<noteq> Y) entries) = length entries"
    using sum_length_filter_compl [of "\<lambda>binding. name binding = Y" entries] by simp
  have none: "\<not> list_ex (\<lambda>binding. name binding = Y)
                   (filter (\<lambda>binding. name binding \<noteq> Y) entries)"
    by (simp add: list_ex_iff)
  have same: "\<not> list_ex (\<lambda>binding. name binding = Y) entries \<Longrightarrow>
              filter (\<lambda>binding. name binding \<noteq> Y) entries = entries"
    by (simp add: list_ex_iff filter_id_conv)
  have one: "length (filter (\<lambda>binding. name binding = Y) entries) = 1 \<Longrightarrow>
             length (filter (\<lambda>binding. name binding \<noteq> Y) entries) = length entries - 1"
    using len by simp
  have getset: "\<And>v. yaml_get t (yaml_set t v y) = v"
    by (cases t) simp_all
  have run: "\<exists>r chartYaml' evs.
           removeServiceBinding t w = (r, Some chartYaml', evs) \<and>
           yaml_get t (yaml chartYaml') =
             Some (filter (\<lambda>binding. name binding \<noteq> Y) entries) \<and>
           (entries \<noteq> [] \<longrightarrow> unlinkAsync w (path chartYaml') = None \<longrightarrow>
              WriteFile (path chartYaml') (yamlStringify w (yaml chartYaml')) \<in> set evs)"
    unfolding removeServiceBinding_def loadChartValues_Inr [OF assms(1)]
    using assms(2,3) False
    by (simp add: Let_def getset split: option.splits)
  then obtain r chartYaml' evs where
    res: "removeServiceBinding t w = (r, Some chartYaml', evs)"
      "yaml_get t (yaml chartYaml') = Some (filter (\<lambda>binding. name binding \<noteq> Y) entries)"
      "entries \<noteq> [] \<longrightarrow> unlinkAsync w (path chartYaml') = None \<longrightarrow>
         WriteFile (path chartYaml') (yamlStringify w (yaml chartYaml')) \<in> set evs"
    by (elim exE conjE)
  show ?thesis
    apply (rule exI [of _ r], rule exI [of _ chartYaml'], rule exI [of _ evs])
    apply (rule exI [of _ "filter (\<lambda>binding. name binding \<noteq> Y) entries"])
    using res none same one by simp
qed

text \<open>
  On the sample chart, whose \<open>serviceEnv\<close> has the one entry \<open>redis\<close>: the selection
  \<open>redis\<close> leaves the section empty and the document is written; the selection \<open>web\<close>,
  which names no entry, leaves the section with its entry.
\<close>

theorem removeServiceBinding_removes_witness:
  "yamlLoad (sample_world (Str ''redis''))
     (pickChart (sample_world (Str ''redis'')) @ ''/values.yaml'') = Inr sample_doc \<and>
   yaml_get serviceEnv sample_doc =
     Some [ServiceBinding ''redis'' (Single ''redis.default.svc.cluster.local'')] \<and>
   showQuickPick (sample_world (Str ''redis''))
     (map (\<lambda>binding. Str (name binding))
        [ServiceBinding ''redis'' (Single ''redis.default.svc.cluster.local'')]) = Str ''redis'' \<and>
   ''redis'' \<noteq> [] \<and>
   length (filter (\<lambda>binding. name binding = ''redis'')
             [ServiceBinding ''redis'' (Single ''redis.default.svc.cluster.local'')]) = 1 \<and>
   (\<exists>r chartYaml' evs.
      removeServiceBinding serviceEnv (sample_world (Str ''redis'')) = (r, Some chartYaml', evs) \<and>
      yaml_get serviceEnv (yaml chartYaml') = Some [] \<and>
      WriteFile (path chartYaml') (yamlStringify (sample_world (Str ''redis'')) (yaml chartYaml'))
        \<in> set evs) \<and>
   showQuickPick (sample_world (Str ''web''))
     (map (\<lambda>binding. Str (name binding))
        [ServiceBinding ''redis'' (Single ''redis.default.svc.cluster.local'')]) = Str ''web'' \<and>
   \<not> list_ex (\<lambda>binding. name binding = ''web'')
       [ServiceBinding ''redis'' (Single ''redis.default.svc.cluster.local'')] \<and>
   (\<exists>r chartYaml' evs.
      removeServiceBinding serviceEnv (sample_world (Str ''web'')) = (r, Some chartYaml', evs) \<and>
      yaml_get serviceEnv (yaml chartYaml') =
        Some [ServiceBinding ''redis'' (Single ''redis.default.svc.cluster.local'')])"
proof -
  let ?entries = "[ServiceBinding ''redis'' (Single ''redis.default.svc.cluster.local'')]"
  have h1: "\<And>pick. yamlLoad (sample_world pick) (pickChart (sample_world pick) @ ''/values.yaml'') =
      Inr sample_doc"
    by (simp add: sample_world_def)
  have h2: "yaml_get serviceEnv sample_doc = Some ?entries"
    by (simp add: sample_doc_def)
  have h3: "\<And>pick. showQuickPick (sample_world pick)
      (map (\<lambda>binding. Str (name binding)) ?entries) = pick"
    by (simp add: sample_world_def)
  have u: "\<And>pick p. unlinkAsync (sample_world pick) p = None"
    by (simp add: sample_world_def)
  from removeServiceBinding_removes [OF h1 h2 h3 [of "Str ''redis''"]]
  have redis: "\<exists>r chartYaml' evs.
      removeServiceBinding serviceEnv (sample_world (Str ''redis'')) = (r, Some chartYaml', evs) \<and>
      yaml_get serviceEnv (yaml chartYaml') = Some [] \<and>
      WriteFile (path chartYaml') (yamlStringify (sample_world (Str ''redis'')) (yaml chartYaml'))
        \<in> set evs"
    using u by auto
  from removeServiceBinding_removes [OF h1 h2 h3 [of "Str ''web''"]]
  have web: "\<exists>r chartYaml' evs.
      removeServiceBinding serviceEnv (sample_world (Str ''web'')) = (r, Some chartYaml', evs) \<and>
      yaml_get serviceEnv (yaml chartYaml') = Some ?entries"
    by auto
  from redis web h1 h2 h3 show ?thesis
    by simp
qed

section \<open>The binding identifier\<close>

lemma indexOf_zero_iff: "indexOf s t = 0 \<longleftrightarrow> prefix t s"
proof (cases s)
  case Nil
  then show ?thesis by simp
next
  case (Cons c cs)
  then show ?thesis by (simp add: Let_def)
qed

lemma indexOf_range: "- 1 \<le> indexOf s t"
  by (induction s) (simp_all add: Let_def)

lemma indexOf_absent_iff: "indexOf s t = - 1 \<longleftrightarrow> \<not> sublist t s"
proof (induction s)
  case Nil
  then show ?case by simp
next
  case (Cons c cs)
  have "- 1 \<le> indexOf cs t" by (rule indexOf_range)
  with Cons show ?case
    by (auto simp: Let_def sublist_Cons_right)
qed

lemma createOrGetServiceBinding_result:
  "fst (createOrGetServiceBinding serviceName w) = Undefined \<or>
   fst (createOrGetServiceBinding serviceName w) = Null \<or>
   fst (createOrGetServiceBinding serviceName w) = serviceName"
  by (simp add: createOrGetServiceBinding_def split: sum.splits)

lemma createOrGetServiceBinding_failing_exit:
  assumes "execCore w (''svcat bind '' @ toString serviceName) = Inr results"
    and "code results \<noteq> 0"
  shows "createOrGetServiceBinding serviceName w =
           (if prefix ''already exists'' (stderr results)
            then (Null,
                  [Shell (''svcat bind '' @ toString serviceName),
                   ErrorMessage (''Could not bind to External Service '' @ [DQ] @
                                 toString serviceName @ [DQ])])
            else (serviceName, [Shell (''svcat bind '' @ toString serviceName)]))"
  using assms by (simp add: createOrGetServiceBinding_def indexOf_zero_iff)

lemma createOrGetServiceBinding_truthy:
  assumes "truthy (fst (createOrGetServiceBinding serviceName w))"
  shows "\<exists>b. serviceName = Str b \<and> b \<noteq> [] \<and>
             fst (createOrGetServiceBinding serviceName w) = Str b"
proof -
  from createOrGetServiceBinding_result [of serviceName w] assms
  have "fst (createOrGetServiceBinding serviceName w) = serviceName" by auto
  with assms show ?thesis by (cases serviceName) auto
qed

lemma createOrGetServiceBinding_events:
  "filter is_persistence (snd (createOrGetServiceBinding serviceName w)) = []"
  by (simp add: createOrGetServiceBinding_def split: sum.splits)

lemma getServiceInstances_events:
  "filter is_persistence (snd (snd (getServiceInstances w c))) = []"
  by (simp add: getServiceInstances_def split: sum.splits prod.splits)

lemma getSecretData_events:
  "filter is_persistence (snd (getSecretData secretName w)) = []"
  by (simp add: getSecretData_def split: sum.splits)

lemma writeUsageToClipboard_events:
  "filter is_persistence (writeUsageToClipboard t n v w) = []"
  by (simp add: writeUsageToClipboard_def Let_def)

section \<open>The external flow\<close>

lemma addExternalService_writes:
  assumes "addExternalService w c = (r, doc, c', evs)"
  shows "filter is_persistence evs = [] \<or>
         (\<exists>chartYaml b ks r4 chartYaml4 evs4.
            loadChartValues w = Inr chartYaml \<and>
            showQuickPick w (ServiceInstanceNames c') = Str b \<and> b \<noteq> [] \<and>
            writeSecretData serviceCatalogEnv b (Many ks) chartYaml w = (r4, chartYaml4, evs4) \<and>
            doc = Some chartYaml4 \<and> filter is_persistence evs = evs4)"
proof (cases "loadChartValues w")
  case (Inl e)
  with assms show ?thesis by (simp add: addExternalService_def)
next
  case (Inr chartYaml)
  define c1 where "c1 =
    (if length (ServiceInstanceNames c) = 0 \<and> length (map fst (ServiceInstanceMap c)) = 0
     then fst (snd (getServiceInstances w c)) else c)"
  define evs1 where "evs1 =
    (if length (ServiceInstanceNames c) = 0 \<and> length (map fst (ServiceInstanceMap c)) = 0
     then snd (snd (getServiceInstances w c)) else [])"
  define serviceToBind where "serviceToBind = showQuickPick w (ServiceInstanceNames c1)"
  define binding where "binding = fst (createOrGetServiceBinding serviceToBind w)"
  define evs2 where "evs2 = snd (createOrGetServiceBinding serviceToBind w)"
  have e1: "filter is_persistence evs1 = []"
    by (simp add: evs1_def getServiceInstances_events)
  have e2: "filter is_persistence evs2 = []"
    by (simp add: evs2_def createOrGetServiceBinding_events)
  have unfolded: "addExternalService w c =
      (if \<not> truthy binding then (Inr (), Some chartYaml, c1, evs1 @ evs2)
       else if isBindingAdded serviceCatalogEnv (toString binding) (yaml chartYaml)
       then (Inr (), Some chartYaml, c1, evs1 @ evs2)
       else (case getSecretData (toString binding) w of
               (Inl e, evs3) \<Rightarrow> (Inl e, Some chartYaml, c1, evs1 @ evs2 @ evs3)
             | (Inr None, evs3) \<Rightarrow> (Inl TypeError, Some chartYaml, c1, evs1 @ evs2 @ evs3)
             | (Inr (Some secretData), evs3) \<Rightarrow>
                 (case writeSecretData serviceCatalogEnv (toString binding)
                         (Many (Object_keys secretData)) chartYaml w of
                    (Inl e, chartYaml', evs4) \<Rightarrow>
                      (Inl e, Some chartYaml', c1, evs1 @ evs2 @ evs3 @ evs4)
                  | (Inr _, chartYaml', evs4) \<Rightarrow>
                      (Inr (), Some chartYaml', c1,
                       evs1 @ evs2 @ evs3 @ evs4 @
                       writeUsageToClipboard serviceCatalogEnv (toString binding)
                         (Many (Object_keys secretData)) w @
                       [InfoMessage
                          (''Bound the application to External Service '' @ [DQ] @
                           toString serviceToBind @ [DQ])]))))"
    unfolding addExternalService_def Inr c1_def evs1_def serviceToBind_def binding_def evs2_def
    by (simp add: Let_def case_prod_beta cong: sum.case_cong option.case_cong)
  show ?thesis
  proof (cases "truthy binding")
    case False
    with assms unfolded e1 e2 show ?thesis by auto
  next
    case True
    then obtain b where b: "serviceToBind = Str b" "b \<noteq> []" "binding = Str b"
      using createOrGetServiceBinding_truthy [of serviceToBind w]
      by (auto simp: binding_def)
    obtain sd evs3 where sd: "getSecretData b w = (sd, evs3)"
      by (cases "getSecretData b w") auto
    have e3: "filter is_persistence evs3 = []"
      using getSecretData_events [of b w] sd by simp
    show ?thesis
    proof (cases "isBindingAdded serviceCatalogEnv b (yaml chartYaml)")
      case True
      with assms unfolded b e1 e2 show ?thesis by auto
    next
      case notAdded: False
      show ?thesis
      proof (cases sd)
        case (Inl e)
        with assms unfolded b e1 e2 e3 sd notAdded show ?thesis by auto
      next
        case (Inr data)
        show ?thesis
        proof (cases data)
          case None
          with Inr assms unfolded b e1 e2 e3 sd notAdded show ?thesis by auto
        next
          case (Some secretData)
          obtain r4 chartYaml4 evs4 where
            w4: "writeSecretData serviceCatalogEnv b (Many (Object_keys secretData)) chartYaml w =
                   (r4, chartYaml4, evs4)"
            by (cases "writeSecretData serviceCatalogEnv b (Many (Object_keys secretData))
                         chartYaml w") auto
          have e4: "filter is_persistence evs4 = evs4"
            using writeSecretData_events [OF w4] by auto
          from Some Inr assms unfolded b sd notAdded w4
          have res: "doc = Some chartYaml4" "c' = c1"
            "filter is_persistence evs = evs4"
            by (auto simp: e1 e2 e3 e4 writeUsageToClipboard_events split: sum.splits)
          from b(1) res(2) have "showQuickPick w (ServiceInstanceNames c') = Str b"
            by (simp add: serviceToBind_def)
          with res w4 b(2) \<open>loadChartValues w = Inr chartYaml\<close> show ?thesis by blast
        qed
      qed
    qed
  qed
qed

text \<open>
  Claim C10. Whatever the shell answers, \<open>createOrGetServiceBinding\<close> returns
  \<open>undefined\<close>, \<open>null\<close> or the very service name it was given, so a result that is a
  binding identifier is the requested name. And whenever \<open>addExternalService\<close> writes
  values.yaml, the user's selection is a non-empty name \<open>b\<close>, and the document written
  is the loaded one with one entry appended to \<open>serviceCatalogEnv\<close>, named \<open>b\<close>.
\<close>

theorem createOrGetServiceBinding_names_binding:
  assumes "addExternalService w c = (r, doc, c', evs)"
  shows "(fst (createOrGetServiceBinding serviceName w) = Undefined \<or>
          fst (createOrGetServiceBinding serviceName w) = Null \<or>
          fst (createOrGetServiceBinding serviceName w) = serviceName) \<and>
         (\<forall>p s. WriteFile p s \<in> set evs \<longrightarrow>
            (\<exists>y chartYaml' b ks.
               yamlLoad w (pickChart w @ ''/values.yaml'') = Inr y \<and>
               doc = Some chartYaml' \<and>
               showQuickPick w (ServiceInstanceNames c') = Str b \<and> b \<noteq> [] \<and>
               yaml_serviceCatalogEnv (yaml chartYaml') =
                 Some ((case yaml_serviceCatalogEnv y of None \<Rightarrow> [] | Some env \<Rightarrow> env) @
                       [ServiceCatalogBinding b (Many ks)]) \<and>
               p = path chartYaml' \<and> s = yamlStringify w (yaml chartYaml')))"
proof (intro conjI allI impI)
  show "fst (createOrGetServiceBinding serviceName w) = Undefined \<or>
        fst (createOrGetServiceBinding serviceName w) = Null \<or>
        fst (createOrGetServiceBinding serviceName w) = serviceName"
    by (rule createOrGetServiceBinding_result)
next
  fix p s
  assume written: "WriteFile p s \<in> set evs"
  then have "WriteFile p s \<in> set (filter is_persistence evs)" by simp
  have "filter is_persistence evs \<noteq> []"
    using filter_empty_conv [of is_persistence evs] written by auto
  with addExternalService_writes [OF assms] obtain chartYaml b ks r4 chartYaml4 evs4 where
    load: "loadChartValues w = Inr chartYaml"
    and pick: "showQuickPick w (ServiceInstanceNames c') = Str b" "b \<noteq> []"
    and wr: "writeSecretData serviceCatalogEnv b (Many ks) chartYaml w = (r4, chartYaml4, evs4)"
    and res: "doc = Some chartYaml4" "filter is_persistence evs = evs4"
    by blast
  from load obtain y where y: "yamlLoad w (pickChart w @ ''/values.yaml'') = Inr y"
    "yaml chartYaml = y"
    by (auto simp: loadChartValues_def Let_def split: sum.splits)
  from \<open>WriteFile p s \<in> set (filter is_persistence evs)\<close> res(2)
  have "WriteFile p s \<in> set evs4" by simp
  with writeSecretData_events [OF wr]
  have ps: "p = path chartYaml4" "s = yamlStringify w (yaml chartYaml4)" by auto
  from writeSecretData_serviceCatalogEnv_doc [of b "Many ks" chartYaml w] wr y(2)
  have "yaml_serviceCatalogEnv (yaml chartYaml4) =
          Some ((case yaml_serviceCatalogEnv y of None \<Rightarrow> [] | Some env \<Rightarrow> env) @
                [ServiceCatalogBinding b (Many ks)])"
    by simp
  with y(1) res(1) pick ps
  show "\<exists>y chartYaml' b ks.
               yamlLoad w (pickChart w @ ''/values.yaml'') = Inr y \<and>
               doc = Some chartYaml' \<and>
               showQuickPick w (ServiceInstanceNames c') = Str b \<and> b \<noteq> [] \<and>
               yaml_serviceCatalogEnv (yaml chartYaml') =
                 Some ((case yaml_serviceCatalogEnv y of None \<Rightarrow> [] | Some env \<Rightarrow> env) @
                       [ServiceCatalogBinding b (Many ks)]) \<and>
               p = path chartYaml' \<and> s = yamlStringify w (yaml chartYaml')"
    by blast
qed

lemma getServiceInstances_same_shell:
  assumes "execCore w ''svcat get instances'' = execCore w' ''svcat get instances''"
  shows "getServiceInstances w c = getServiceInstances w' c"
  using assms by (simp add: getServiceInstances_def)

lemma addExternalService_sample:
  "addExternalService (sample_world (Str ''foo'')) empty_cache =
     (Inr (),
      Some \<lparr>path = ''chart/values.yaml'',
            yaml = sample_doc\<lparr>yaml_serviceCatalogEnv :=
                     Some [ServiceCatalogBinding ''foo'' (Many [''host'', ''port''])]\<rparr>\<rparr>,
      sample_cache,
      [Shell ''svcat get instances'', Shell ''svcat bind foo'',
       Kubectl ''get secret foo -o json'', Unlink ''chart/values.yaml'',
       WriteFile ''chart/values.yaml'' (''redis'' @ [NL] @ ''foo'')] @
      writeUsageToClipboard serviceCatalogEnv ''foo'' (Many [''host'', ''port''])
        (sample_world (Str ''foo'')) @
      [InfoMessage (''Bound the application to External Service '' @ [DQ] @ ''foo'' @ [DQ])])"
proof -
  have bind: "createOrGetServiceBinding (Str ''foo'') (sample_world (Str ''foo'')) =
      (Str ''foo'', [Shell ''svcat bind foo''])"
    by (simp add: createOrGetServiceBinding_def sample_world_def)
  have secret: "getSecretData ''foo'' (sample_world (Str ''foo'')) =
      (Inr (Some [(''host'', ''aG9zdA==''), (''port'', ''MzMwNg=='')]),
       [Kubectl ''get secret foo -o json''])"
    by (simp add: getSecretData_def sample_world_def)
  have load: "loadChartValues (sample_world (Str ''foo'')) =
      Inr \<lparr>path = ''chart/values.yaml'', yaml = sample_doc\<rparr>"
    by (simp add: loadChartValues_def sample_world_def)
  have wr: "writeSecretData serviceCatalogEnv ''foo'' (Many [''host'', ''port''])
      \<lparr>path = ''chart/values.yaml'', yaml = sample_doc\<rparr> (sample_world (Str ''foo'')) =
      (Inr (),
       \<lparr>path = ''chart/values.yaml'',
        yaml = sample_doc\<lparr>yaml_serviceCatalogEnv :=
                     Some [ServiceCatalogBinding ''foo'' (Many [''host'', ''port''])]\<rparr>\<rparr>,
       [Unlink ''chart/values.yaml'',
        WriteFile ''chart/values.yaml'' (''redis'' @ [NL] @ ''foo'')])"
    by (simp add: writeSecretData_def sample_world_def sample_doc_def sample_stringify_def)
  have pick: "\<And>items. showQuickPick (sample_world (Str ''foo'')) items = Str ''foo''"
    by (simp add: sample_world_def)
  have notAdded: "\<not> isBindingAdded serviceCatalogEnv ''foo'' sample_doc"
    by (simp add: isBindingAdded_def sample_doc_def)
  have empty: "ServiceInstanceNames empty_cache = []" "ServiceInstanceMap empty_cache = []"
    by (simp_all add: empty_cache_def)
  show ?thesis
    unfolding addExternalService_def load
    by (simp add: getServiceInstances_sample empty pick bind secret wr notAdded
          Object_keys_def Let_def)
qed

text \<open>
  The sample flow: the user picks the instance \<open>foo\<close>, every command succeeds, and the
  entry written to \<open>serviceCatalogEnv\<close> is named \<open>foo\<close>.
\<close>

theorem createOrGetServiceBinding_names_binding_witness:
  "\<exists>r doc c' evs.
     addExternalService (sample_world (Str ''foo'')) empty_cache = (r, doc, c', evs) \<and>
     WriteFile ''chart/values.yaml'' (''redis'' @ [NL] @ ''foo'') \<in> set evs \<and>
     showQuickPick (sample_world (Str ''foo'')) (ServiceInstanceNames c') = Str ''foo'' \<and>
     (\<exists>chartYaml' ks.
        doc = Some chartYaml' \<and>
        yaml_serviceCatalogEnv (yaml chartYaml') = Some [ServiceCatalogBinding ''foo'' (Many ks)])"
proof -
  let ?w = "sample_world (Str ''foo'')"
  obtain r doc c' evs where run: "addExternalService ?w empty_cache = (r, doc, c', evs)"
    and written: "WriteFile ''chart/values.yaml'' (''redis'' @ [NL] @ ''foo'') \<in> set evs"
    using addExternalService_sample by simp
  have pick: "\<And>items. showQuickPick ?w items = Str ''foo''"
    by (simp add: sample_world_def)
  have load: "yamlLoad ?w (pickChart ?w @ ''/values.yaml'') = Inr sample_doc"
    by (simp add: sample_world_def)
  have none: "yaml_serviceCatalogEnv sample_doc = None"
    by (simp add: sample_doc_def)
  from createOrGetServiceBinding_names_binding [OF run, of "Str ''foo''"] written
  obtain y chartYaml' b ks where
    "yamlLoad ?w (pickChart ?w @ ''/values.yaml'') = Inr y" "doc = Some chartYaml'"
    "showQuickPick ?w (ServiceInstanceNames c') = Str b"
    "yaml_serviceCatalogEnv (yaml chartYaml') =
       Some ((case yaml_serviceCatalogEnv y of None \<Rightarrow> [] | Some env \<Rightarrow> env) @
             [ServiceCatalogBinding b (Many ks)])"
    by blast
  with pick load none have "doc = Some chartYaml'"
    "yaml_serviceCatalogEnv (yaml chartYaml') = Some [ServiceCatalogBinding ''foo'' (Many ks)]"
    by auto
  with run written pick show ?thesis by blast
qed

section \<open>Where the code leaves the specification\<close>

lemma removeServiceBinding_absent_section:
  assumes "yamlLoad w (pickChart w @ ''/values.yaml'') = Inr y"
    and "yaml_get t y = None"
  shows "removeServiceBinding t w =
           (Inl TypeError, Some \<lparr>path = pickChart w @ ''/values.yaml'', yaml = y\<rparr>, [])"
  unfolding removeServiceBinding_def loadChartValues_Inr [OF assms(1)]
  using assms(2) by simp

lemma removeServiceBinding_empty_section:
  assumes "yamlLoad w (pickChart w @ ''/values.yaml'') = Inr y"
    and "yaml_get t y = Some []"
  shows "removeServiceBinding t w =
           (Inr (), Some \<lparr>path = pickChart w @ ''/values.yaml'', yaml = y\<rparr>,
            [InfoMessage ''No Services to remove.''])"
  unfolding removeServiceBinding_def loadChartValues_Inr [OF assms(1)]
  using assms(2) by simp

lemma removeServiceBinding_no_selection:
  assumes "yamlLoad w (pickChart w @ ''/values.yaml'') = Inr y"
    and "yaml_get t y = Some entries"
    and "entries \<noteq> []"
    and "showQuickPick w (map (\<lambda>binding. Str (name binding)) entries) = Undefined \<or>
         showQuickPick w (map (\<lambda>binding. Str (name binding)) entries) = Str []"
  shows "removeServiceBinding t w =
           (Inr (), Some \<lparr>path = pickChart w @ ''/values.yaml'', yaml = y\<rparr>, [])"
  unfolding removeServiceBinding_def loadChartValues_Inr [OF assms(1)]
  using assms(2-4) by (auto simp: Let_def)

lemma getSecretData_failure:
  assumes "kubectlInvoke w (''get secret '' @ secretName @ '' -o json'') = Inl e \<or>
           (\<exists>res. kubectlInvoke w (''get secret '' @ secretName @ '' -o json'') = Inr res \<and>
                  code res \<noteq> 0)"
  shows "fst (getSecretData secretName w) = Inr None \<and>
         filter is_error_notice (snd (getSecretData secretName w)) \<noteq> []"
  using assms by (auto simp: getSecretData_def)

text \<open>
  Claim C1 is not what the code does. With a failing exit code, a standard error that
  is exactly \<open>already exists\<close> has the text at position 0, which is falsy: the code
  shows an error and returns \<open>null\<close> instead of reusing the binding. And a standard
  error without the text gives \<open>-1\<close>, which is truthy: the code returns the service
  name and shows no error.
\<close>

theorem createOrGetServiceBinding_indexOf_truthiness:
  "createOrGetServiceBinding (Str ''foo'')
     (with_bind (Inr \<lparr>code = 1, stdout = [], stderr = ''already exists''\<rparr>)
        (sample_world (Str ''foo''))) =
     (Null,
      [Shell ''svcat bind foo'',
       ErrorMessage (''Could not bind to External Service '' @ [DQ] @ ''foo'' @ [DQ])]) \<and>
   createOrGetServiceBinding (Str ''foo'')
     (with_bind (Inr \<lparr>code = 1, stdout = [], stderr = ''connection refused''\<rparr>)
        (sample_world (Str ''foo''))) =
     (Str ''foo'', [Shell ''svcat bind foo''])"
  by (simp add: createOrGetServiceBinding_def with_bind_def sample_world_def Let_def)

text \<open>
  Claim C7 is not what the code does. The sample chart has no \<open>serviceCatalogEnv\<close>
  section; \<open>removeExternalService\<close> reads the length of the absent section and raises
  a \<open>TypeError\<close>, with no notice.
\<close>

theorem removeServiceBinding_absent_section_raises:
  "removeExternalService (sample_world (Str ''foo'')) =
     (Inl TypeError, Some \<lparr>path = ''chart/values.yaml'', yaml = sample_doc\<rparr>, [])"
  by (simp add: removeExternalService_def removeServiceBinding_def loadChartValues_def
        sample_world_def sample_doc_def)

text \<open>
  Claim C8 is not what the code does in the two add flows. In \<open>addExternalService\<close> a
  cancelled prompt is not tested: the flow runs \<open>svcat bind undefined\<close>, and when that
  command cannot run it shows an error notice. In \<open>addService\<close> only the empty string
  is tested: a cancelled prompt selects no service, and the read of the missing
  service's name raises a \<open>TypeError\<close>.
\<close>

theorem add_flows_cancelled_prompt:
  "addExternalService
     (with_bind (Inl (Rejected ''spawn svcat ENOENT'')) (sample_world Undefined)) empty_cache =
     (Inr (), Some \<lparr>path = ''chart/values.yaml'', yaml = sample_doc\<rparr>, sample_cache,
      [Shell ''svcat get instances'', Shell ''svcat bind undefined'',
       ErrorMessage (''Error binding to External Service '' @ [DQ] @ ''undefined'' @ [DQ])]) \<and>
   addService (sample_world Undefined) =
     (Inl TypeError, Some \<lparr>path = ''chart/values.yaml'', yaml = sample_doc\<rparr>,
      [Kubectl ''get svc -o json''])"
proof
  let ?w = "with_bind (Inl (Rejected ''spawn svcat ENOENT'')) (sample_world Undefined)"
  have get: "getServiceInstances ?w empty_cache =
      (Some [sample_instance], sample_cache, [Shell ''svcat get instances''])"
    using getServiceInstances_same_shell [of ?w "sample_world Undefined" empty_cache]
      getServiceInstances_sample [of Undefined]
    by (simp add: with_bind_def)
  have bind: "createOrGetServiceBinding Undefined ?w =
      (Undefined,
       [Shell ''svcat bind undefined'',
        ErrorMessage (''Error binding to External Service '' @ [DQ] @ ''undefined'' @ [DQ])])"
    by (simp add: createOrGetServiceBinding_def with_bind_def sample_world_def)
  have load: "loadChartValues ?w = Inr \<lparr>path = ''chart/values.yaml'', yaml = sample_doc\<rparr>"
    by (simp add: loadChartValues_def with_bind_def sample_world_def)
  have pick: "\<And>items. showQuickPick ?w items = Undefined"
    by (simp add: with_bind_def sample_world_def)
  have empty: "ServiceInstanceNames empty_cache = []" "ServiceInstanceMap empty_cache = []"
    by (simp_all add: empty_cache_def)
  show "addExternalService ?w empty_cache =
     (Inr (), Some \<lparr>path = ''chart/values.yaml'', yaml = sample_doc\<rparr>, sample_cache,
      [Shell ''svcat get instances'', Shell ''svcat bind undefined'',
       ErrorMessage (''Error binding to External Service '' @ [DQ] @ ''undefined'' @ [DQ])])"
    unfolding addExternalService_def load
    by (simp add: get empty pick bind Let_def)
  show "addService (sample_world Undefined) =
     (Inl TypeError, Some \<lparr>path = ''chart/values.yaml'', yaml = sample_doc\<rparr>,
      [Kubectl ''get svc -o json''])"
    by (simp add: addService_def loadChartValues_def sample_world_def Let_def)
qed

text \<open>
  Claim C9 is not what the code does. When \<open>kubectl get secret\<close> exits with code 1,
  \<open>getSecretData\<close> shows the error and returns \<open>undefined\<close>; \<open>addExternalService\<close> does
  not test the result, and \<open>Object.keys(undefined)\<close> raises a \<open>TypeError\<close> that leaves
  the command. Nothing is written.
\<close>

theorem addExternalService_secret_failure_raises:
  "addExternalService
     (with_kubectl (Inr \<lparr>code = 1, stdout = [], stderr = ''Error from server (NotFound)''\<rparr>)
        (sample_world (Str ''foo''))) empty_cache =
     (Inl TypeError, Some \<lparr>path = ''chart/values.yaml'', yaml = sample_doc\<rparr>, sample_cache,
      [Shell ''svcat get instances'', Shell ''svcat bind foo'',
       Kubectl ''get secret foo -o json'',
       ErrorMessage ''Could not get External Service foo on the cluster''])"
proof -
  let ?w = "with_kubectl (Inr \<lparr>code = 1, stdout = [], stderr = ''Error from server (NotFound)''\<rparr>)
        (sample_world (Str ''foo''))"
  have get: "getServiceInstances ?w empty_cache =
      (Some [sample_instance], sample_cache, [Shell ''svcat get instances''])"
    using getServiceInstances_same_shell [of ?w "sample_world (Str ''foo'')" empty_cache]
      getServiceInstances_sample [of "Str ''foo''"]
    by (simp add: with_kubectl_def)
  have bind: "createOrGetServiceBinding (Str ''foo'') ?w =
      (Str ''foo'', [Shell ''svcat bind foo''])"
    by (simp add: createOrGetServiceBinding_def with_kubectl_def sample_world_def)
  have secret: "getSecretData ''foo'' ?w =
      (Inr None,
       [Kubectl ''get secret foo -o json'',
        ErrorMessage ''Could not get External Service foo on the cluster''])"
    by (simp add: getSecretData_def with_kubectl_def)
  have load: "loadChartValues ?w = Inr \<lparr>path = ''chart/values.yaml'', yaml = sample_doc\<rparr>"
    by (simp add: loadChartValues_def with_kubectl_def sample_world_def)
  have pick: "\<And>items. showQuickPick ?w items = Str ''foo''"
    by (simp add: with_kubectl_def sample_world_def)
  have notAdded: "\<not> isBindingAdded serviceCatalogEnv ''foo'' sample_doc"
    by (simp add: isBindingAdded_def sample_doc_def)
  have empty: "ServiceInstanceNames empty_cache = []" "ServiceInstanceMap empty_cache = []"
    by (simp_all add: empty_cache_def)
  show ?thesis
    unfolding addExternalService_def load
    by (simp add: get empty pick bind secret notAdded Let_def)
qed

end
